theory Spec2Isabelle
  imports Complex_Main "HOL-Library.Multiset" "HOL-Library.Sublist"
    "HOL-Library.Product_Lexorder"
begin

section \<open>Python values shared by the three modules\<close>

text \<open>
  A Python \<open>str\<close> is a sequence of Unicode code points, so it is modelled as a list of
  code points (natural numbers); \<open>str\<close> turns an Isabelle string literal into one.
  Exceptions are values of \<open>py_error\<close>; a function that can raise returns
  \<open>py_error + 'a\<close> with \<open>Inl\<close> for the exception.
\<close>

type_synonym pystr = "nat list"

definition str :: "string \<Rightarrow> pystr" where
  "str s = map of_char s"

datatype py_error =
    ValueError
  | TypeError
  | OverflowError
  | ZeroDivisionError
  | PermissionError pystr
  | HTTPError nat
  | OtherException pystr

section \<open>parsers.py\<close>

subsection \<open>Whitespace, \<open>re.sub(r"\s+", " ", text)\<close> and \<open>str.strip\<close>\<close>

text \<open>
  \<open>is_space\<close> is the set of code points for which \<open>str.isspace\<close> holds; the
  regular-expression class \<open>\s\<close> on \<open>str\<close> patterns and \<open>str.strip()\<close> both use it.
\<close>

definition is_space :: "nat \<Rightarrow> bool" where
  "is_space c \<longleftrightarrow>
     (9 \<le> c \<and> c \<le> 13) \<or> (28 \<le> c \<and> c \<le> 32) \<or> c = 133 \<or> c = 160 \<or> c = 5760 \<or>
     (8192 \<le> c \<and> c \<le> 8202) \<or> c = 8232 \<or> c = 8233 \<or> c = 8239 \<or> c = 8287 \<or>
     c = 12288"

text \<open>\<open>re.sub(r"\s+", " ", text)\<close>: every maximal run of whitespace becomes one space (32).\<close>

function sub_ws :: "pystr \<Rightarrow> pystr" where
  "sub_ws [] = []"
| "sub_ws (c # cs) =
     (if is_space c then 32 # sub_ws (dropWhile is_space cs) else c # sub_ws cs)"
  by pat_completeness auto
termination
  by (relation "measure length") (auto simp: less_Suc_eq_le length_dropWhile_le)

definition strip :: "pystr \<Rightarrow> pystr" where
  "strip s = dropWhile is_space (rev (dropWhile is_space (rev s)))"

subsection \<open>DataCleaner.clean_text\<close>

text \<open>
  The argument is \<open>None\<close> or a string; \<open>if not text\<close> holds for \<open>None\<close> and for the
  empty string.
\<close>

definition clean_text :: "pystr option \<Rightarrow> pystr" where
  "clean_text text =
     (case text of
        None \<Rightarrow> []
      | Some s \<Rightarrow> if s = [] then [] else strip (sub_ws s))"

text \<open>The shape of a cleaned string: every whitespace character is a lone space.\<close>

fun single_spaced :: "pystr \<Rightarrow> bool" where
  "single_spaced [] = True"
| "single_spaced [c] = (is_space c \<longrightarrow> c = 32)"
| "single_spaced (c # d # cs) =
     ((is_space c \<longrightarrow> c = 32 \<and> \<not> is_space d) \<and> single_spaced (d # cs))"

subsection \<open>The document tree of BeautifulSoup\<close>

text \<open>
  An attribute value is a string, or a list of strings for the multi-valued attributes
  (\<open>class\<close>, \<open>rel\<close>, ...). A node is a string of text, a comment or a tag with its
  attributes and children. Parsing HTML text and matching CSS selectors belong to the
  library and are parameters of the functions below.
\<close>

datatype attr_value = AStr pystr | AList "pystr list"

datatype node =
    Text pystr
  | Comment pystr
  | Tag pystr "(pystr \<times> attr_value) list" "node list"

text \<open>\<open>el.get(attr)\<close>: the attribute's value, or \<open>None\<close>.\<close>

fun el_get :: "node \<Rightarrow> pystr \<Rightarrow> attr_value option" where
  "el_get (Tag name attrs children) a = map_of attrs a"
| "el_get (Text s) a = None"
| "el_get (Comment s) a = None"

text \<open>The descendants of a node in document order, the node itself excluded.\<close>

fun descendants :: "node \<Rightarrow> node list" where
  "descendants (Tag name attrs children) = concat (map (\<lambda>c. c # descendants c) children)"
| "descendants (Text s) = []"
| "descendants (Comment s) = []"

fun has_name :: "pystr list \<Rightarrow> node \<Rightarrow> bool" where
  "has_name names (Tag name attrs children) = (name \<in> set names)"
| "has_name names (Text s) = False"
| "has_name names (Comment s) = False"

definition find_all :: "pystr list \<Rightarrow> node \<Rightarrow> node list" where
  "find_all names el = filter (has_name names) (descendants el)"

definition find_first :: "pystr \<Rightarrow> node \<Rightarrow> node option" where
  "find_first name el = (case find_all [name] el of [] \<Rightarrow> None | x # xs \<Rightarrow> Some x)"

text \<open>
  \<open>el.get_text(strip=True)\<close>: the text strings below the node, each stripped, the empty
  ones dropped, joined without a separator.
\<close>

fun all_strings :: "node \<Rightarrow> pystr list" where
  "all_strings (Tag name attrs children) = concat (map all_strings children)"
| "all_strings (Text s) = [s]"
| "all_strings (Comment s) = []"

definition get_text_strip :: "node \<Rightarrow> pystr" where
  "get_text_strip el = concat (filter (\<lambda>s. s \<noteq> []) (map strip (all_strings el)))"

subsection \<open>HTMLParser.extract_by_selector_attr\<close>

text \<open>Truthiness of \<open>el.get(attr)\<close>: \<open>None\<close>, the empty string and the empty list are false.\<close>

fun value_truthy :: "attr_value option \<Rightarrow> bool" where
  "value_truthy None = False"
| "value_truthy (Some (AStr s)) = (s \<noteq> [])"
| "value_truthy (Some (AList l)) = (l \<noteq> [])"

fun selector_attr_loop :: "pystr \<Rightarrow> node list \<Rightarrow> attr_value list \<Rightarrow> attr_value list" where
  "selector_attr_loop a [] values = values"
| "selector_attr_loop a (elem # elements) values =
     (case el_get elem a of
        None \<Rightarrow> selector_attr_loop a elements values
      | Some v \<Rightarrow>
          if value_truthy (Some v) then selector_attr_loop a elements (values @ [v])
          else selector_attr_loop a elements values)"

definition extract_by_selector_attr ::
  "('soup \<Rightarrow> pystr \<Rightarrow> py_error + node list) \<Rightarrow> 'soup \<Rightarrow> pystr \<Rightarrow> pystr \<Rightarrow>
     py_error + attr_value list" where
  "extract_by_selector_attr select soup selector a =
     (case select soup selector of
        Inl e \<Rightarrow> Inl e
      | Inr elements \<Rightarrow> Inr (selector_attr_loop a elements []))"

subsection \<open>HTMLParser.extract_table\<close>

text \<open>
  A Tag is always true in a condition, so \<open>if not table\<close> and \<open>if header_row\<close> test for
  \<open>None\<close> only. \<open>dict(zip(headers, texts))\<close> is the map updated with the pairs in order.
\<close>

type_synonym table_record = "pystr \<rightharpoonup> pystr"

fun table_loop :: "pystr list \<Rightarrow> node list \<Rightarrow> table_record list \<Rightarrow> table_record list" where
  "table_loop headers [] data = data"
| "table_loop headers (row # rows) data =
     (let cells = find_all [str ''td''] row
      in if length cells = length headers
         then table_loop headers rows
                (data @ [Map.empty (headers [\<mapsto>] map get_text_strip cells)])
         else table_loop headers rows data)"

definition extract_table_of :: "node option \<Rightarrow> table_record list" where
  "extract_table_of table =
     (case table of
        None \<Rightarrow> []
      | Some t \<Rightarrow>
          (case find_all [str ''tr''] t of
             [] \<Rightarrow> []
           | row0 # rest \<Rightarrow>
               (case find_first (str ''thead'') t of
                  Some header_row \<Rightarrow>
                    table_loop
                      (map get_text_strip (find_all [str ''th'', str ''td''] header_row))
                      (row0 # rest) []
                | None \<Rightarrow>
                    table_loop
                      (map get_text_strip (find_all [str ''th'', str ''td''] row0))
                      rest [])))"

definition extract_table ::
  "('soup \<Rightarrow> pystr \<Rightarrow> py_error + node option) \<Rightarrow> 'soup \<Rightarrow> pystr \<Rightarrow>
     py_error + table_record list" where
  "extract_table select_one soup table_selector =
     (case select_one soup table_selector of
        Inl e \<Rightarrow> Inl e
      | Inr table \<Rightarrow> Inr (extract_table_of table))"

text \<open>
  For stating what the extraction returns: the header labels it derives, the \<open>td\<close> cells
  of a row, which are what it counts and reads, and the record a row becomes. \<open>cells\<close>
  are the cells of a row as the header count takes them, \<open>th\<close> and \<open>td\<close> alike.
\<close>

definition header_labels :: "node \<Rightarrow> pystr list" where
  "header_labels t =
     (case find_first (str ''thead'') t of
        Some h \<Rightarrow> map get_text_strip (find_all [str ''th'', str ''td''] h)
      | None \<Rightarrow>
          (case find_all [str ''tr''] t of
             [] \<Rightarrow> []
           | row0 # rest \<Rightarrow> map get_text_strip (find_all [str ''th'', str ''td''] row0)))"

definition td_cells :: "node \<Rightarrow> node list" where
  "td_cells row = find_all [str ''td''] row"

definition row_record :: "pystr list \<Rightarrow> node \<Rightarrow> table_record" where
  "row_record headers row = Map.empty (headers [\<mapsto>] map get_text_strip (td_cells row))"

definition cells :: "node \<Rightarrow> node list" where
  "cells row = find_all [str ''th'', str ''td''] row"

section \<open>web_scraper.py\<close>

subsection \<open>ExtractedItem and extract_items\<close>

text \<open>
  The dataclass declares \<open>attr: Optional[str]\<close>; at run time the field holds whatever
  \<open>el.get(attr)\<close> returned, so it is an optional attribute value here.
\<close>

record ExtractedItem =
  source_url :: pystr
  item_text :: "pystr option"
  item_attr :: "attr_value option"

text \<open>
  One pass of the loop body. \<open>if attr\<close> is false for \<open>None\<close> and for the empty string.
  \<open>urljoin\<close> belongs to the library and can raise (\<open>ValueError\<close> on a malformed URL).
\<close>

definition text_item :: "pystr \<Rightarrow> node \<Rightarrow> ExtractedItem" where
  "text_item base_url el =
     \<lparr>source_url = base_url, item_text = Some (get_text_strip el), item_attr = None\<rparr>"

definition attr_item ::
  "(pystr \<Rightarrow> pystr \<Rightarrow> py_error + pystr) \<Rightarrow> pystr \<Rightarrow> pystr \<Rightarrow> node \<Rightarrow>
     py_error + ExtractedItem" where
  "attr_item urljoin base_url a el =
     (case el_get el a of
        Some (AStr v) \<Rightarrow>
          if a = str ''href'' \<or> a = str ''src''
          then (case urljoin base_url v of
                  Inl e \<Rightarrow> Inl e
                | Inr u \<Rightarrow>
                    Inr \<lparr>source_url = base_url, item_text = None, item_attr = Some (AStr u)\<rparr>)
          else Inr \<lparr>source_url = base_url, item_text = None, item_attr = Some (AStr v)\<rparr>
      | val \<Rightarrow> Inr \<lparr>source_url = base_url, item_text = None, item_attr = val\<rparr>)"

definition attr_given :: "pystr option \<Rightarrow> bool" where
  "attr_given attr = (case attr of None \<Rightarrow> False | Some a \<Rightarrow> a \<noteq> [])"

definition extract_one ::
  "(pystr \<Rightarrow> pystr \<Rightarrow> py_error + pystr) \<Rightarrow> pystr \<Rightarrow> pystr option \<Rightarrow> node \<Rightarrow>
     py_error + ExtractedItem" where
  "extract_one urljoin base_url attr el =
     (case attr of
        None \<Rightarrow> Inr (text_item base_url el)
      | Some a \<Rightarrow>
          if a \<noteq> [] then attr_item urljoin base_url a el
          else Inr (text_item base_url el))"

fun extract_loop ::
  "(pystr \<Rightarrow> pystr \<Rightarrow> py_error + pystr) \<Rightarrow> pystr \<Rightarrow> pystr option \<Rightarrow> node list \<Rightarrow>
     ExtractedItem list \<Rightarrow> py_error + ExtractedItem list" where
  "extract_loop urljoin base_url attr [] results = Inr results"
| "extract_loop urljoin base_url attr (el # els) results =
     (case extract_one urljoin base_url attr el of
        Inl e \<Rightarrow> Inl e
      | Inr it \<Rightarrow> extract_loop urljoin base_url attr els (results @ [it]))"

text \<open>
  \<open>select html selector\<close> stands for \<open>BeautifulSoup(html, "html.parser").select(selector)\<close>,
  the matched nodes in document order, or the library's exception.
\<close>

definition extract_items ::
  "(pystr \<Rightarrow> pystr \<Rightarrow> py_error + node list) \<Rightarrow> (pystr \<Rightarrow> pystr \<Rightarrow> py_error + pystr) \<Rightarrow>
     pystr \<Rightarrow> pystr \<Rightarrow> pystr \<Rightarrow> pystr option \<Rightarrow> py_error + ExtractedItem list" where
  "extract_items select urljoin html base_url selector attr =
     (case select html selector of
        Inl e \<Rightarrow> Inl e
      | Inr els \<Rightarrow> extract_loop urljoin base_url attr els [])"

text \<open>An item's field is populated when it is not \<open>None\<close>.\<close>

definition populated :: "'a option \<Rightarrow> bool" where
  "populated x = (x \<noteq> None)"

subsection \<open>Fetcher\<close>

text \<open>
  The libraries the Fetcher calls: \<open>urlparse\<close> (scheme and netloc), \<open>urljoin\<close>, the
  robots parser (\<open>set_url\<close> and \<open>read\<close> together, returning the loaded policy or
  raising), \<open>can_fetch\<close> and the HTTP session's \<open>get\<close> with its retries.
\<close>

record response =
  status_code :: nat
  resp_text :: pystr

record 'p library =
  lib_urlparse :: "pystr \<Rightarrow> py_error + pystr \<times> pystr"
  lib_urljoin :: "pystr \<Rightarrow> pystr \<Rightarrow> py_error + pystr"
  lib_read_robots :: "pystr \<Rightarrow> py_error + 'p"
  lib_can_fetch :: "'p \<Rightarrow> pystr \<Rightarrow> pystr \<Rightarrow> py_error + bool"
  lib_session_get :: "pystr \<Rightarrow> py_error + response"

record 'p Fetcher =
  base_url :: "pystr option"
  robots :: "'p option"
  timeout :: rat

definition user_agent :: pystr where
  "user_agent = str ''intermediate-python-web-scraper/1.0 (+https://github.com)''"

text \<open>
  \<open>_init_robots\<close>: \<open>urlparse\<close> stands before the \<open>try\<close>, so its exception leaves the
  constructor; any exception of the robots parser sets \<open>_robots\<close> to \<open>None\<close>.
\<close>

definition init_robots :: "'p library \<Rightarrow> 'p Fetcher \<Rightarrow> pystr \<Rightarrow> py_error + 'p Fetcher" where
  "init_robots lib f url =
     (case lib_urlparse lib url of
        Inl e \<Rightarrow> Inl e
      | Inr (scheme, netloc) \<Rightarrow>
          (case lib_read_robots lib (scheme @ str ''://'' @ netloc @ str ''/robots.txt'') of
             Inl e \<Rightarrow> Inr (f\<lparr>robots := None\<rparr>)
           | Inr rp \<Rightarrow> Inr (f\<lparr>robots := Some rp\<rparr>)))"

definition new_Fetcher :: "'p library \<Rightarrow> pystr option \<Rightarrow> rat \<Rightarrow> py_error + 'p Fetcher" where
  "new_Fetcher lib b t =
     (let f = \<lparr>base_url = b, robots = None, timeout = t\<rparr>
      in case b of
           None \<Rightarrow> Inr f
         | Some u \<Rightarrow> if u \<noteq> [] then init_robots lib f u else Inr f)"

definition allowed :: "'p library \<Rightarrow> 'p Fetcher \<Rightarrow> pystr \<Rightarrow> py_error + bool" where
  "allowed lib f url =
     (case robots f of
        None \<Rightarrow> Inr True
      | Some rp \<Rightarrow> lib_can_fetch lib rp user_agent url)"

definition resolve :: "'p library \<Rightarrow> 'p Fetcher \<Rightarrow> pystr \<Rightarrow> py_error + pystr" where
  "resolve lib f url =
     (case base_url f of
        None \<Rightarrow> Inr url
      | Some b \<Rightarrow> if b \<noteq> [] then lib_urljoin lib b url else Inr url)"

text \<open>
  \<open>get\<close> returns its outcome together with the requests it handed to the HTTP session.
\<close>

definition raise_for_status :: "response \<Rightarrow> py_error + response" where
  "raise_for_status resp =
     (if 400 \<le> status_code resp \<and> status_code resp < 600
      then Inl (HTTPError (status_code resp)) else Inr resp)"

definition get :: "'p library \<Rightarrow> 'p Fetcher \<Rightarrow> pystr \<Rightarrow> (py_error + response) \<times> pystr list" where
  "get lib f url0 =
     (case resolve lib f url0 of
        Inl e \<Rightarrow> (Inl e, [])
      | Inr url \<Rightarrow>
          (case allowed lib f url of
             Inl e \<Rightarrow> (Inl e, [])
           | Inr ok \<Rightarrow>
               if \<not> ok then (Inl (PermissionError url), [])
               else (case lib_session_get lib url of
                       Inl e \<Rightarrow> (Inl e, [url])
                     | Inr resp \<Rightarrow> (raise_for_status resp, [url]))))"

subsection \<open>The robots parser of the standard library\<close>

text \<open>
  \<open>urllib.robotparser.RobotFileParser\<close>, as far as the Fetcher depends on it. Opening the
  robots URL raises (a network failure, a malformed URL), or is answered with an HTTP
  error status (\<open>HTTPError\<close>, which \<open>read\<close> handles itself), or yields a body, which
  either cannot be decoded as UTF-8 (an exception) or is parsed into rules. \<open>parsed\<close>
  holds the rules once \<open>parse\<close> has run; \<open>last_checked\<close> is set exactly then. Matching
  a URL against the rules is a parameter of \<open>can_fetch\<close>.
\<close>

datatype 'r robots_answer =
    OpenRaises py_error
  | AnswersHTTPError nat
  | AnswersBody "py_error + 'r"

record 'r RobotFileParser =
  disallow_all :: bool
  allow_all :: bool
  parsed :: "'r option"

definition fresh_parser :: "'r RobotFileParser" where
  "fresh_parser = \<lparr>disallow_all = False, allow_all = False, parsed = None\<rparr>"

definition rp_read :: "(pystr \<Rightarrow> 'r robots_answer) \<Rightarrow> pystr \<Rightarrow> py_error + 'r RobotFileParser" where
  "rp_read urlopen url =
     (case urlopen url of
        OpenRaises e \<Rightarrow> Inl e
      | AnswersHTTPError code \<Rightarrow>
          if code = 401 \<or> code = 403 then Inr (fresh_parser\<lparr>disallow_all := True\<rparr>)
          else if 400 \<le> code \<and> code < 500 then Inr (fresh_parser\<lparr>allow_all := True\<rparr>)
          else Inr fresh_parser
      | AnswersBody (Inl e) \<Rightarrow> Inl e
      | AnswersBody (Inr rules) \<Rightarrow> Inr (fresh_parser\<lparr>parsed := Some rules\<rparr>))"

definition rp_can_fetch ::
  "('r \<Rightarrow> pystr \<Rightarrow> pystr \<Rightarrow> py_error + bool) \<Rightarrow> 'r RobotFileParser \<Rightarrow> pystr \<Rightarrow> pystr \<Rightarrow>
     py_error + bool" where
  "rp_can_fetch rules_allow rp useragent url =
     (if disallow_all rp then Inr False
      else if allow_all rp then Inr True
      else (case parsed rp of
              None \<Rightarrow> Inr False
            | Some rules \<Rightarrow> rules_allow rules useragent url))"

section \<open>analysis.py\<close>

subsection \<open>Records and their values\<close>

text \<open>
  A record is a dict from field names to scalar values. A float held by a record is a
  finite double, given as the rational number it denotes.
  \<open>py_eq\<close> is Python's \<open>==\<close> on scalars, where \<open>True == 1 == 1.0\<close>.
\<close>

datatype pyval = PNone | PBool bool | PInt int | PFloat rat | PStr pystr

type_synonym pydict = "pystr \<rightharpoonup> pyval"

fun num_of :: "pyval \<Rightarrow> rat option" where
  "num_of (PBool b) = Some (if b then 1 else 0)"
| "num_of (PInt i) = Some (of_int i)"
| "num_of (PFloat r) = Some r"
| "num_of PNone = None"
| "num_of (PStr s) = None"

definition py_eq :: "pyval \<Rightarrow> pyval \<Rightarrow> bool" where
  "py_eq a b =
     (case num_of a of
        Some x \<Rightarrow> (case num_of b of Some y \<Rightarrow> x = y | None \<Rightarrow> False)
      | None \<Rightarrow> (case num_of b of Some y \<Rightarrow> False | None \<Rightarrow> a = b))"

text \<open>\<open>item.get(key)\<close>: the value, or \<open>None\<close> when the key is missing.\<close>

definition dict_get :: "pydict \<Rightarrow> pystr \<Rightarrow> pyval" where
  "dict_get item key = (case item key of None \<Rightarrow> PNone | Some v \<Rightarrow> v)"

subsection \<open>DataAggregator.filter_data\<close>

text \<open>
  The third argument is a callable (its result taken as a truth value, or its exception)
  or any other value.
\<close>

datatype filter_arg = Literal pyval | Callable "pyval \<Rightarrow> py_error + bool"

fun filter_callable ::
  "(pyval \<Rightarrow> py_error + bool) \<Rightarrow> pystr \<Rightarrow> pydict list \<Rightarrow> py_error + pydict list" where
  "filter_callable f key [] = Inr []"
| "filter_callable f key (item # rest) =
     (case item key of
        None \<Rightarrow> filter_callable f key rest
      | Some v \<Rightarrow>
          (case f v of
             Inl e \<Rightarrow> Inl e
           | Inr b \<Rightarrow>
               (case filter_callable f key rest of
                  Inl e \<Rightarrow> Inl e
                | Inr r \<Rightarrow> Inr (if b then item # r else r))))"

fun filter_data :: "pydict list \<Rightarrow> pystr \<Rightarrow> filter_arg \<Rightarrow> py_error + pydict list" where
  "filter_data data key (Callable f) = filter_callable f key data"
| "filter_data data key (Literal v) =
     Inr (filter (\<lambda>item. py_eq (dict_get item key) v) data)"

subsection \<open>Python numbers and their arithmetic\<close>

text \<open>
  The numbers a list of values holds: integers of any size and floats. A float is a
  double, given as the rational it denotes (of the form \<open>m * 2 ^ k / 2 ^ 1074\<close> with
  \<open>\<bar>m\<bar> < 2 ^ 53\<close> and \<open>k < 2046\<close>), or an infinity. The sign of a zero is not kept.
  NaN is not a value of a list here, because the order in which \<open>sorted\<close> leaves a list
  with a NaN depends on the comparisons the sorting algorithm makes; it does arise as a
  result (\<open>inf + -inf\<close>).
\<close>

datatype pyfloat = Finite rat | PosInf | NegInf

datatype pynum = NInt int | NFloat pyfloat

datatype pyres = Num pynum | NaN

text \<open>
  Rounding to the nearest double, ties to the even mantissa: the magnitude is scaled by
  \<open>2 ^ 1074\<close>, so that the doubles are the integers \<open>m * 2 ^ k\<close>; \<open>exponent\<close> is the least
  \<open>k\<close> for which the mantissa stays below \<open>2 ^ 53\<close>. A magnitude of \<open>2 ^ 1024 - 2 ^ 970\<close>
  or more rounds beyond the largest double.
\<close>

definition round_half_even :: "rat \<Rightarrow> int" where
  "round_half_even x =
     (let f = \<lfloor>x\<rfloor>; d = x - of_int f
      in if d < 1 / 2 then f else if 1 / 2 < d then f + 1 else if even f then f else f + 1)"

definition exponent :: "rat \<Rightarrow> nat" where
  "exponent s =
     (case find (\<lambda>k. s < 2 ^ (k + 53)) [0..<2046] of Some k \<Rightarrow> k | None \<Rightarrow> 2045)"

definition nearest :: "rat \<Rightarrow> rat" where
  "nearest q =
     (let s = \<bar>q\<bar> * 2 ^ 1074; k = exponent s
      in sgn q * of_int (round_half_even (s / 2 ^ k)) * 2 ^ k / 2 ^ 1074)"

definition too_large :: "rat \<Rightarrow> bool" where
  "too_large q \<longleftrightarrow> 2 ^ 1024 - 2 ^ 970 \<le> \<bar>q\<bar>"

definition int_too_large :: "int \<Rightarrow> bool" where
  "int_too_large i \<longleftrightarrow> 2 ^ 1024 - 2 ^ 970 \<le> \<bar>i\<bar>"

text \<open>The result of a float operation whose exact value is \<open>q\<close>: it overflows to an infinity.\<close>

definition to_double :: "rat \<Rightarrow> pyfloat" where
  "to_double q =
     (if too_large q then (if 0 < q then PosInf else NegInf) else Finite (nearest q))"

fun float_add :: "pyfloat \<Rightarrow> pyfloat \<Rightarrow> pyres" where
  "float_add (Finite x) (Finite y) = Num (NFloat (to_double (x + y)))"
| "float_add PosInf NegInf = NaN"
| "float_add NegInf PosInf = NaN"
| "float_add PosInf y = Num (NFloat PosInf)"
| "float_add NegInf y = Num (NFloat NegInf)"
| "float_add (Finite x) y = Num (NFloat y)"

text \<open>
  \<open>a + b\<close>: exact on two integers; otherwise an integer operand is converted to a float
  first, which raises \<open>OverflowError\<close> when it is too large.
\<close>

fun py_add :: "pynum \<Rightarrow> pynum \<Rightarrow> py_error + pyres" where
  "py_add (NInt i) (NInt j) = Inr (Num (NInt (i + j)))"
| "py_add (NInt i) (NFloat y) =
     (if int_too_large i then Inl OverflowError
      else Inr (float_add (Finite (nearest (of_int i))) y))"
| "py_add (NFloat x) (NInt j) =
     (if int_too_large j then Inl OverflowError
      else Inr (float_add x (Finite (nearest (of_int j)))))"
| "py_add (NFloat x) (NFloat y) = Inr (float_add x y)"

text \<open>
  \<open>x / d\<close> for an integer \<open>d\<close>. The quotient of two integers is the exact quotient,
  rounded once, and \<open>OverflowError\<close> when that is too large for a float; a float is divided
  by the float of \<open>d\<close>.
\<close>

fun float_div :: "pyfloat \<Rightarrow> rat \<Rightarrow> pyfloat" where
  "float_div (Finite x) y = to_double (x / y)"
| "float_div PosInf y = (if 0 < y then PosInf else NegInf)"
| "float_div NegInf y = (if 0 < y then NegInf else PosInf)"

fun py_truediv :: "pyres \<Rightarrow> int \<Rightarrow> py_error + pyres" where
  "py_truediv (Num (NInt a)) d =
     (if d = 0 then Inl ZeroDivisionError
      else if too_large (of_int a / of_int d) then Inl OverflowError
      else Inr (Num (NFloat (Finite (nearest (of_int a / of_int d))))))"
| "py_truediv (Num (NFloat x)) d =
     (if int_too_large d then Inl OverflowError
      else if d = 0 then Inl ZeroDivisionError
      else Inr (Num (NFloat (float_div x (nearest (of_int d))))))"
| "py_truediv NaN d =
     (if int_too_large d then Inl OverflowError
      else if d = 0 then Inl ZeroDivisionError
      else Inr NaN)"

text \<open>
  The order of \<open><\<close> on numbers compares the values they denote, an integer with a float
  too. \<open>sorted\<close> is stable; \<open>min\<close> and \<open>max\<close> keep the first of several smallest or largest
  elements.
\<close>

fun num_key :: "pynum \<Rightarrow> int \<times> rat" where
  "num_key (NInt i) = (0, of_int i)"
| "num_key (NFloat (Finite q)) = (0, q)"
| "num_key (NFloat PosInf) = (1, 0)"
| "num_key (NFloat NegInf) = (- 1, 0)"

definition py_less :: "pynum \<Rightarrow> pynum \<Rightarrow> bool" where
  "py_less a b \<longleftrightarrow> num_key a < num_key b"

definition py_sorted :: "pynum list \<Rightarrow> pynum list" where
  "py_sorted values = sort_key num_key values"

fun py_min :: "pynum list \<Rightarrow> py_error + pynum" where
  "py_min [] = Inl ValueError"
| "py_min (x # xs) = Inr (fold (\<lambda>item m. if py_less item m then item else m) xs x)"

fun py_max :: "pynum list \<Rightarrow> py_error + pynum" where
  "py_max [] = Inl ValueError"
| "py_max (x # xs) = Inr (fold (\<lambda>item m. if py_less m item then item else m) xs x)"

subsection \<open>StatisticalAnalyzer\<close>

text \<open>
  \<open>float(x)\<close>: \<open>TypeError\<close> for \<open>None\<close>, \<open>ValueError\<close> for a string that is not a number
  (\<open>str_float\<close> is the library's reading of numeric strings), \<open>OverflowError\<close> for an
  integer that rounds beyond the largest double.
\<close>

fun py_float :: "(pystr \<Rightarrow> rat option) \<Rightarrow> pyval \<Rightarrow> py_error + pynum" where
  "py_float str_float PNone = Inl TypeError"
| "py_float str_float (PBool b) = Inr (NFloat (Finite (if b then 1 else 0)))"
| "py_float str_float (PInt i) =
     (if int_too_large i then Inl OverflowError
      else Inr (NFloat (Finite (nearest (of_int i)))))"
| "py_float str_float (PFloat r) = Inr (NFloat (Finite r))"
| "py_float str_float (PStr s) =
     (case str_float s of None \<Rightarrow> Inl ValueError | Some r \<Rightarrow> Inr (NFloat (Finite r)))"

fun numeric_loop ::
  "(pystr \<Rightarrow> rat option) \<Rightarrow> pystr \<Rightarrow> pydict list \<Rightarrow> pynum list \<Rightarrow>
     py_error + pynum list" where
  "numeric_loop str_float key [] values = Inr values"
| "numeric_loop str_float key (item # rest) values =
     (case item key of
        None \<Rightarrow> numeric_loop str_float key rest values
      | Some v \<Rightarrow>
          (case py_float str_float v of
             Inr x \<Rightarrow> numeric_loop str_float key rest (values @ [x])
           | Inl e \<Rightarrow>
               if e = ValueError \<or> e = TypeError
               then numeric_loop str_float key rest values
               else Inl e))"

definition get_numeric_values ::
  "(pystr \<Rightarrow> rat option) \<Rightarrow> pydict list \<Rightarrow> pystr \<Rightarrow> py_error + pynum list" where
  "get_numeric_values str_float data key = numeric_loop str_float key data []"

text \<open>
  The builtin \<open>sum\<close> is a parameter \<open>py_sum\<close>: how it adds floats differs between versions
  of the interpreter. An \<open>Optional[float]\<close> result is a \<open>pyres option\<close>.
\<close>

definition calculate_average ::
  "(pynum list \<Rightarrow> py_error + pyres) \<Rightarrow> pynum list \<Rightarrow> py_error + pyres option" where
  "calculate_average py_sum values =
     (if values = [] then Inr None
      else (case py_sum values of
              Inl e \<Rightarrow> Inl e
            | Inr tot \<Rightarrow>
                (case py_truediv tot (int (length values)) of
                   Inl e \<Rightarrow> Inl e
                 | Inr a \<Rightarrow> Inr (Some a))))"

definition calculate_median :: "pynum list \<Rightarrow> py_error + pyres option" where
  "calculate_median values =
     (if values = [] then Inr None
      else let sorted_values = py_sorted values; n = length sorted_values
           in if n mod 2 = 0
              then (case py_add (sorted_values ! (n div 2 - 1)) (sorted_values ! (n div 2)) of
                      Inl e \<Rightarrow> Inl e
                    | Inr tot \<Rightarrow>
                        (case py_truediv tot 2 of
                           Inl e \<Rightarrow> Inl e
                         | Inr m \<Rightarrow> Inr (Some m)))
              else Inr (Some (Num (sorted_values ! (n div 2)))))"

text \<open>The dict of statistics: its values are numbers or \<open>None\<close>.\<close>

type_synonym statistics = "pystr \<rightharpoonup> pyres option"

definition get_statistics ::
  "(pynum list \<Rightarrow> py_error + pyres) \<Rightarrow> (pystr \<Rightarrow> rat option) \<Rightarrow> pydict list \<Rightarrow> pystr \<Rightarrow>
     py_error + statistics" where
  "get_statistics py_sum str_float data key =
     (case get_numeric_values str_float data key of
        Inl e \<Rightarrow> Inl e
      | Inr values \<Rightarrow>
          if values = [] then Inr Map.empty
          else
            (case py_sum values of
               Inl e \<Rightarrow> Inl e
             | Inr tot \<Rightarrow>
            (case calculate_average py_sum values of
               Inl e \<Rightarrow> Inl e
             | Inr average \<Rightarrow>
            (case calculate_median values of
               Inl e \<Rightarrow> Inl e
             | Inr median \<Rightarrow>
            (case py_min values of
               Inl e \<Rightarrow> Inl e
             | Inr mn \<Rightarrow>
            (case py_max values of
               Inl e \<Rightarrow> Inl e
             | Inr mx \<Rightarrow>
                 Inr [str ''count'' \<mapsto> Some (Num (NInt (int (length values)))),
                      str ''sum'' \<mapsto> Some tot,
                      str ''average'' \<mapsto> average,
                      str ''median'' \<mapsto> median,
                      str ''min'' \<mapsto> Some (Num mn),
                      str ''max'' \<mapsto> Some (Num mx)]))))))"

subsection \<open>DataValidator.remove_duplicates\<close>

text \<open>
  The set \<open>seen\<close> is kept as the list of the values added to it; membership in a Python
  set is membership up to \<open>==\<close>.
\<close>

definition py_in :: "pyval \<Rightarrow> pyval list \<Rightarrow> bool" where
  "py_in v seen = list_ex (py_eq v) seen"

fun dedup_loop :: "pystr \<Rightarrow> pydict list \<Rightarrow> pyval list \<Rightarrow> pydict list \<Rightarrow> pydict list" where
  "dedup_loop key [] seen unique = unique"
| "dedup_loop key (item # rest) seen unique =
     (case item key of
        None \<Rightarrow> dedup_loop key rest seen unique
      | Some v \<Rightarrow>
          if \<not> py_in v seen then dedup_loop key rest (seen @ [v]) (unique @ [item])
          else dedup_loop key rest seen unique)"

text \<open>
  Without a key the records go through a set of their sorted item tuples. Two records
  are the same element of that set when they have the same keys with \<open>==\<close> values; the
  set keeps the first of them, and yields its elements in an order that is not specified.
  \<open>may_return\<close> therefore relates the call to each list it can return.
\<close>

definition same_items :: "pydict \<Rightarrow> pydict \<Rightarrow> bool" where
  "same_items a b = (\<forall>k. rel_option py_eq (a k) (b k))"

fun set_of_records :: "pydict list \<Rightarrow> pydict list \<Rightarrow> pydict list" where
  "set_of_records [] elems = elems"
| "set_of_records (d # ds) elems =
     (if list_ex (same_items d) elems then set_of_records ds elems
      else set_of_records ds (elems @ [d]))"

definition key_given :: "pystr option \<Rightarrow> bool" where
  "key_given key = (case key of None \<Rightarrow> False | Some k \<Rightarrow> k \<noteq> [])"

definition remove_duplicates_may_return ::
  "pydict list \<Rightarrow> pystr option \<Rightarrow> pydict list \<Rightarrow> bool" where
  "remove_duplicates_may_return data key out =
     (case key of
        None \<Rightarrow> mset out = mset (set_of_records data [])
      | Some k \<Rightarrow>
          if k \<noteq> [] then out = dedup_loop k data [] []
          else mset out = mset (set_of_records data []))"

text \<open>
  The words of the specification for the key case: the record at index \<open>i\<close> is kept
  when it has the key and no earlier record carries an \<open>==\<close> value for it.
\<close>

definition first_with_value :: "pystr \<Rightarrow> pydict list \<Rightarrow> nat \<Rightarrow> bool" where
  "first_with_value key data i =
     (case (data ! i) key of
        None \<Rightarrow> False
      | Some v \<Rightarrow>
          \<not> list_ex (\<lambda>j. case (data ! j) key of None \<Rightarrow> False | Some w \<Rightarrow> py_eq v w) [0..<i])"

text \<open>The same with a set of values seen before the list starts (the loop's invariant).\<close>

definition first_unseen :: "pystr \<Rightarrow> pyval list \<Rightarrow> pydict list \<Rightarrow> nat \<Rightarrow> bool" where
  "first_unseen key seen data i =
     (case (data ! i) key of
        None \<Rightarrow> False
      | Some v \<Rightarrow>
          \<not> py_in v seen \<and>
          \<not> list_ex (\<lambda>j. case (data ! j) key of None \<Rightarrow> False | Some w \<Rightarrow> py_eq v w) [0..<i])"

text \<open>
  The words of the specification for the statistics: the number a record contributes,
  if its field coerces; and the records whose field is an integer beyond the float range.
\<close>

definition numeric_value :: "(pystr \<Rightarrow> rat option) \<Rightarrow> pystr \<Rightarrow> pydict \<Rightarrow> pynum option" where
  "numeric_value str_float key item =
     (case item key of
        None \<Rightarrow> None
      | Some v \<Rightarrow> (case py_float str_float v of Inl e \<Rightarrow> None | Inr x \<Rightarrow> Some x))"

definition overflows :: "pystr \<Rightarrow> pydict \<Rightarrow> bool" where
  "overflows key item =
     (case item key of
        Some (PInt i) \<Rightarrow> int_too_large i
      | Some v \<Rightarrow> False
      | None \<Rightarrow> False)"




section \<open>Concrete inputs\<close>

text \<open>A stand-in for \<open>urljoin\<close> on a base without a path and a reference starting with a slash.\<close>

definition ex_urljoin :: "pystr \<Rightarrow> pystr \<Rightarrow> py_error + pystr" where
  "ex_urljoin base url = Inr (base @ url)"

definition ex_base :: pystr where
  "ex_base = str ''https://example.com''"

text \<open>\<open><a class="link">more</a>\<close>: a link without \<open>href\<close>.\<close>

definition ex_anchor :: node where
  "ex_anchor = Tag (str ''a'') [(str ''class'', AList [str ''link''])] [Text (str ''more'')]"

definition ex_select_anchor :: "pystr \<Rightarrow> pystr \<Rightarrow> py_error + node list" where
  "ex_select_anchor html selector = Inr [ex_anchor]"

text \<open>\<open><img alt="logo">\<close>: an image without \<open>src\<close>.\<close>

definition ex_img :: node where
  "ex_img = Tag (str ''img'') [(str ''alt'', AStr (str ''logo''))] []"

definition ex_select_img :: "pystr \<Rightarrow> pystr \<Rightarrow> py_error + node list" where
  "ex_select_img html selector = Inr [ex_img]"

text \<open>\<open><a class="link" href="/p">one</a>\<close> followed by the link without \<open>href\<close>.\<close>

definition ex_anchor_p :: node where
  "ex_anchor_p =
     Tag (str ''a'') [(str ''class'', AList [str ''link'']), (str ''href'', AStr (str ''/p''))]
       [Text (str ''one'')]"

definition ex_select_two :: "pystr \<Rightarrow> pystr \<Rightarrow> py_error + node list" where
  "ex_select_two html selector = Inr [ex_anchor_p, ex_anchor]"

text \<open>
  A table without \<open>thead\<close>: a header row \<open>A, B\<close>, a row \<open>1, 2\<close> and a row with the single
  cell \<open>3\<close>.
\<close>

definition ex_table :: node where
  "ex_table =
     Tag (str ''table'') []
       [Tag (str ''tr'') []
          [Tag (str ''th'') [] [Text (str ''A'')], Tag (str ''th'') [] [Text (str ''B'')]],
        Tag (str ''tr'') []
          [Tag (str ''td'') [] [Text (str '' 1 '')], Tag (str ''td'') [] [Text (str ''2'')]],
        Tag (str ''tr'') []
          [Tag (str ''td'') [] [Text (str ''3'')]]]"

text \<open>A selector engine whose document is the table element itself.\<close>

definition ex_select_root :: "node \<Rightarrow> pystr \<Rightarrow> py_error + node option" where
  "ex_select_root soup selector = Inr (Some soup)"

text \<open>
  A table with a \<open>thead\<close> of \<open>th\<close> cells \<open>A, B\<close> and a body with a row \<open>1, 2\<close> and a row
  with the single cell \<open>3\<close>.
\<close>

definition ex_table_thead :: node where
  "ex_table_thead =
     Tag (str ''table'') []
       [Tag (str ''thead'') []
          [Tag (str ''tr'') []
             [Tag (str ''th'') [] [Text (str ''A'')], Tag (str ''th'') [] [Text (str ''B'')]]],
        Tag (str ''tbody'') []
          [Tag (str ''tr'') []
             [Tag (str ''td'') [] [Text (str ''1'')], Tag (str ''td'') [] [Text (str ''2'')]],
           Tag (str ''tr'') []
             [Tag (str ''td'') [] [Text (str ''3'')]]]]"

text \<open>
  A table without \<open>thead\<close>: the header row \<open>A, B\<close> and a row of two cells, a row header
  \<open>x\<close> (\<open>th\<close>) and the value \<open>1\<close> (\<open>td\<close>).
\<close>

definition ex_row_th_td :: node where
  "ex_row_th_td =
     Tag (str ''tr'') []
       [Tag (str ''th'') [] [Text (str ''x'')], Tag (str ''td'') [] [Text (str ''1'')]]"

definition ex_table_rowhead :: node where
  "ex_table_rowhead =
     Tag (str ''table'') []
       [Tag (str ''tr'') []
          [Tag (str ''th'') [] [Text (str ''A'')], Tag (str ''th'') [] [Text (str ''B'')]],
        ex_row_th_td]"

text \<open>A table whose \<open>thead\<close> row is made of \<open>td\<close> cells \<open>A, B\<close>, with one body row \<open>1, 2\<close>.\<close>

definition ex_table_thead_td :: node where
  "ex_table_thead_td =
     Tag (str ''table'') []
       [Tag (str ''thead'') []
          [Tag (str ''tr'') []
             [Tag (str ''td'') [] [Text (str ''A'')], Tag (str ''td'') [] [Text (str ''B'')]]],
        Tag (str ''tbody'') []
          [Tag (str ''tr'') []
             [Tag (str ''td'') [] [Text (str ''1'')], Tag (str ''td'') [] [Text (str ''2'')]]]]"

text \<open>
  A library for the Fetcher: a robots policy is the list of the URLs it disallows;
  \<open>example.com\<close> serves one, the robots file of \<open>down.example\<close> cannot be read.
\<close>

definition ex_lib :: "pystr list library" where
  "ex_lib =
     \<lparr>lib_urlparse = (\<lambda>url.
        if url = str ''https://example.com'' then Inr (str ''https'', str ''example.com'')
        else if url = str ''https://down.example'' then Inr (str ''https'', str ''down.example'')
        else Inl ValueError),
      lib_urljoin = (\<lambda>base url. Inr url),
      lib_read_robots = (\<lambda>url.
        if url = str ''https://example.com/robots.txt''
        then Inr [str ''https://example.com/private'']
        else Inl (OtherException (str ''URLError''))),
      lib_can_fetch = (\<lambda>rp agent url. Inr (url \<notin> set rp)),
      lib_session_get = (\<lambda>url. Inr \<lparr>status_code = 200, resp_text = []\<rparr>)\<rparr>"

text \<open>
  The same site with the standard library's parser, when the request for its robots file
  is answered with status 503.
\<close>

definition ex_lib_503 :: "unit RobotFileParser library" where
  "ex_lib_503 =
     \<lparr>lib_urlparse = (\<lambda>url.
        if url = str ''https://example.com'' then Inr (str ''https'', str ''example.com'')
        else Inl ValueError),
      lib_urljoin = (\<lambda>base url. Inr url),
      lib_read_robots = rp_read (\<lambda>url. AnswersHTTPError 503),
      lib_can_fetch = rp_can_fetch (\<lambda>rules agent url. Inr True),
      lib_session_get = (\<lambda>url. Inr \<lparr>status_code = 200, resp_text = []\<rparr>)\<rparr>"

text \<open>The records of the specification's deduplication example, and two that share the key \<open>""\<close>.\<close>

definition ex_rec1 :: pydict where
  "ex_rec1 = [str ''id'' \<mapsto> PInt 1, str ''v'' \<mapsto> PStr (str ''a'')]"

definition ex_rec2 :: pydict where
  "ex_rec2 = [str ''id'' \<mapsto> PInt 2, str ''v'' \<mapsto> PStr (str ''b'')]"

definition ex_rec3 :: pydict where
  "ex_rec3 = [str ''id'' \<mapsto> PInt 1, str ''v'' \<mapsto> PStr (str ''c'')]"

definition ex_blank1 :: pydict where
  "ex_blank1 = [[] \<mapsto> PInt 1, str ''v'' \<mapsto> PStr (str ''a'')]"

definition ex_blank2 :: pydict where
  "ex_blank2 = [[] \<mapsto> PInt 1, str ''v'' \<mapsto> PStr (str ''c'')]"

definition ex_nokey :: pydict where
  "ex_nokey = [str ''v'' \<mapsto> PStr (str ''a'')]"

section \<open>Theorems\<close>

subsection \<open>clean_text\<close>

lemma sub_ws_hd: "sub_ws s = c # r \<Longrightarrow> is_space c \<Longrightarrow> s \<noteq> [] \<and> is_space (hd s)"
  by (cases s) (auto split: if_splits)

lemma single_spaced_sub_ws: "single_spaced (sub_ws s)"
proof (induction s rule: sub_ws.induct)
  case 1
  show ?case by simp
next
  case (2 c cs)
  show ?case
  proof (cases "is_space c")
    case True
    let ?r = "dropWhile is_space cs"
    have ih: "single_spaced (sub_ws ?r)" using 2(1) True by simp
    show ?thesis
    proof (cases "sub_ws ?r")
      case Nil
      then show ?thesis using True by simp
    next
      case (Cons d ds)
      have "\<not> is_space d"
      proof
        assume "is_space d"
        with Cons have "?r \<noteq> [] \<and> is_space (hd ?r)" by (rule sub_ws_hd)
        then show False using hd_dropWhile[of is_space cs] by simp
      qed
      then show ?thesis using True Cons ih by simp
    qed
  next
    case False
    have ih: "single_spaced (sub_ws cs)" using 2(2) False by simp
    show ?thesis using False ih by (cases "sub_ws cs") auto
  qed
qed

lemma sub_ws_single_spaced: "single_spaced s \<Longrightarrow> sub_ws s = s"
proof (induction s rule: single_spaced.induct)
  case 1
  show ?case by simp
next
  case (2 c)
  then show ?case by auto
next
  case (3 c d cs)
  then show ?case by auto
qed

lemma single_spaced_append:
  "single_spaced (xs @ ys) \<Longrightarrow> single_spaced xs \<and> single_spaced ys"
proof (induction xs rule: single_spaced.induct)
  case 1
  then show ?case by simp
next
  case (2 c)
  then show ?case by (cases ys) auto
next
  case (3 c d cs)
  then show ?case by auto
qed

lemma single_spaced_strip: "single_spaced s \<Longrightarrow> single_spaced (strip s)"
proof -
  assume a: "single_spaced s"
  let ?r = "rev (dropWhile is_space (rev s))"
  have "s = ?r @ rev (takeWhile is_space (rev s))"
    by (metis rev_append rev_rev_ident takeWhile_dropWhile_id)
  with a have "single_spaced ?r" using single_spaced_append by metis
  moreover have "?r = takeWhile is_space ?r @ dropWhile is_space ?r" by simp
  ultimately show ?thesis unfolding strip_def using single_spaced_append by metis
qed

lemma strip_idem: "strip (strip s) = strip s"
proof (cases "strip s = []")
  case True
  have "strip [] = []" by (simp add: strip_def)
  with True show ?thesis by simp
next
  case False
  let ?r = "rev (dropWhile is_space (rev s))"
  let ?t = "strip s"
  have t: "?t = dropWhile is_space ?r" by (simp add: strip_def)
  have hd: "\<not> is_space (hd ?t)" using False hd_dropWhile t by metis
  have rne: "dropWhile is_space (rev s) \<noteq> []"
  proof
    assume "dropWhile is_space (rev s) = []"
    then have "?t = dropWhile is_space (rev [])" by (simp only: strip_def)
    then have "?t = []" by simp
    with False show False by simp
  qed
  have "\<not> is_space (hd (dropWhile is_space (rev s)))" using rne hd_dropWhile by metis
  then have lr: "\<not> is_space (last ?r)" using rne by (simp add: last_rev)
  have "?r = takeWhile is_space ?r @ ?t" using t by simp
  then have "last ?r = last ?t" using False by (metis last_appendR)
  with lr have "\<not> is_space (last ?t)" by simp
  then have "dropWhile is_space (rev ?t) = rev ?t"
    using False by (cases "rev ?t") (auto simp: last_rev hd_rev)
  moreover have "dropWhile is_space ?t = ?t" using hd False by (cases ?t) auto
  ultimately show ?thesis by (simp add: strip_def)
qed

text \<open>
  C9: \<open>clean_text\<close> is idempotent, \<open>clean_text(clean_text(s)) = clean_text(s)\<close> for
  every string and for absent input, and it maps the empty string and absent input to
  the empty string.
\<close>

theorem clean_text_idempotent:
  "clean_text (Some (clean_text s)) = clean_text s \<and>
   clean_text None = [] \<and> clean_text (Some []) = []"
proof (cases s)
  case None
  then show ?thesis by (simp add: clean_text_def)
next
  case (Some x)
  show ?thesis
  proof (cases "x = []")
    case True
    then show ?thesis using Some by (simp add: clean_text_def)
  next
    case False
    have ss: "single_spaced (strip (sub_ws x))"
      by (rule single_spaced_strip) (rule single_spaced_sub_ws)
    have "strip (sub_ws (strip (sub_ws x))) = strip (sub_ws x)"
      using sub_ws_single_spaced[OF ss] strip_idem by simp
    then show ?thesis using Some False by (simp add: clean_text_def)
  qed
qed

subsection \<open>extract_table\<close>

lemma table_loop_map_filter:
  "table_loop headers rows data =
     data @ map (row_record headers)
              (filter (\<lambda>row. length (td_cells row) = length headers) rows)"
  by (induction rows arbitrary: data) (simp_all add: row_record_def td_cells_def Let_def)

lemma extract_table_of_no_thead:
  "find_first (str ''thead'') t = None \<Longrightarrow>
     extract_table_of (Some t) =
       map (row_record (header_labels t))
         (filter (\<lambda>row. length (td_cells row) = length (header_labels t))
            (tl (find_all [str ''tr''] t)))"
  by (simp add: extract_table_of_def header_labels_def table_loop_map_filter
      split: list.splits)

lemma extract_table_of_thead:
  "find_first (str ''thead'') t = Some h \<Longrightarrow>
     extract_table_of (Some t) =
       map (row_record (header_labels t))
         (filter (\<lambda>row. length (td_cells row) = length (header_labels t))
            (find_all [str ''tr''] t))"
  by (simp add: extract_table_of_def header_labels_def table_loop_map_filter
      split: list.splits)

lemma dom_row_record:
  "length (td_cells row) = length headers \<Longrightarrow> dom (row_record headers row) = set headers"
  by (simp add: row_record_def dom_map_upds)

lemma extract_table_of_dom:
  "r \<in> set (extract_table_of (Some t)) \<Longrightarrow> dom r = set (header_labels t)"
proof (cases "find_first (str ''thead'') t")
  case None
  assume "r \<in> set (extract_table_of (Some t))"
  then obtain row where "r = row_record (header_labels t) row"
    and "length (td_cells row) = length (header_labels t)"
    unfolding extract_table_of_no_thead[OF None] by auto
  then show ?thesis by (simp add: dom_row_record)
next
  case (Some h)
  assume "r \<in> set (extract_table_of (Some t))"
  then obtain row where "r = row_record (header_labels t) row"
    and "length (td_cells row) = length (header_labels t)"
    unfolding extract_table_of_thead[OF Some] by auto
  then show ?thesis by (simp add: dom_row_record)
qed

text \<open>
  C8 as stated fails. Without \<open>thead\<close>, a row of two cells (a \<open>th\<close> and a \<open>td\<close>) under a
  header of two labels is dropped, because only \<open>td\<close> cells are counted for a data row
  while \<open>th\<close> and \<open>td\<close> cells are counted for the header. And the row inside a \<open>thead\<close>
  is examined as a data row like any other: made of \<open>td\<close> cells, it comes back as a record.
\<close>

theorem extract_table_counts_td_only:
  "find_first (str ''thead'') ex_table_rowhead = None \<and>
   header_labels ex_table_rowhead = [str ''A'', str ''B''] \<and>
   tl (find_all [str ''tr''] ex_table_rowhead) = [ex_row_th_td] \<and>
   length (cells ex_row_th_td) = length (header_labels ex_table_rowhead) \<and>
   extract_table ex_select_root ex_table_rowhead (str ''table'') = Inr [] \<and>
   extract_table ex_select_root ex_table_thead_td (str ''table'') =
     Inr [[str ''A'' \<mapsto> str ''A'', str ''B'' \<mapsto> str ''B''],
          [str ''A'' \<mapsto> str ''1'', str ''B'' \<mapsto> str ''2'']]"
proof (intro conjI)
  show f: "find_first (str ''thead'') ex_table_rowhead = None"
    by (simp add: find_first_def find_all_def ex_table_rowhead_def ex_row_th_td_def str_def)
  show h: "header_labels ex_table_rowhead = [str ''A'', str ''B'']"
    by (simp add: header_labels_def find_first_def find_all_def ex_table_rowhead_def
        ex_row_th_td_def str_def get_text_strip_def strip_def is_space_def)
  show r: "tl (find_all [str ''tr''] ex_table_rowhead) = [ex_row_th_td]"
    by (simp add: find_all_def ex_table_rowhead_def ex_row_th_td_def str_def)
  show "length (cells ex_row_th_td) = length (header_labels ex_table_rowhead)"
    unfolding h by (simp add: cells_def find_all_def ex_row_th_td_def str_def)
  have "length (td_cells ex_row_th_td) = 1"
    by (simp add: td_cells_def find_all_def ex_row_th_td_def str_def)
  then show "extract_table ex_select_root ex_table_rowhead (str ''table'') = Inr []"
    by (simp add: extract_table_def ex_select_root_def extract_table_of_no_thead[OF f] h r)
  show "extract_table ex_select_root ex_table_thead_td (str ''table'') =
     Inr [[str ''A'' \<mapsto> str ''A'', str ''B'' \<mapsto> str ''B''],
          [str ''A'' \<mapsto> str ''1'', str ''B'' \<mapsto> str ''2'']]"
    by (simp add: extract_table_def ex_select_root_def extract_table_of_def find_first_def
        find_all_def ex_table_thead_td_def str_def get_text_strip_def strip_def is_space_def)
qed

text \<open>
  C8, as the code has it: when the selector identifies a table element \<open>t\<close>, no error
  arises and every record returned is keyed by the header labels. Without a \<open>thead\<close>
  the labels are the texts of the \<open>th\<close> and \<open>td\<close> cells of the first row, and the result
  is, in order, one record for each later row whose number of \<open>td\<close> cells equals the
  number of labels; every other row is dropped. With a \<open>thead\<close> the labels are the texts
  of its \<open>th\<close> and \<open>td\<close> cells; if no row inside it has as many \<open>td\<close> cells as there are
  labels (header rows of \<open>th\<close> cells), the result is one record for each row of the table
  whose number of \<open>td\<close> cells equals the number of labels, and every other row, those
  of the \<open>thead\<close> included, is dropped.
\<close>

theorem extract_table_rows:
  "select_one soup selector = Inr (Some t) \<longrightarrow>
     extract_table select_one soup selector = Inr (extract_table_of (Some t)) \<and>
     (\<forall>r \<in> set (extract_table_of (Some t)). dom r = set (header_labels t)) \<and>
     (find_first (str ''thead'') t = None \<longrightarrow>
        header_labels t =
          (case find_all [str ''tr''] t of
             [] \<Rightarrow> []
           | row0 # rest \<Rightarrow> map get_text_strip (cells row0)) \<and>
        extract_table_of (Some t) =
          map (row_record (header_labels t))
            (filter (\<lambda>row. length (td_cells row) = length (header_labels t))
               (tl (find_all [str ''tr''] t)))) \<and>
     (\<forall>h. find_first (str ''thead'') t = Some h \<and>
          \<not> list_ex (\<lambda>row. length (td_cells row) = length (header_labels t))
              (find_all [str ''tr''] h) \<longrightarrow>
        header_labels t = map get_text_strip (cells h) \<and>
        extract_table_of (Some t) =
          map (row_record (header_labels t))
            (filter (\<lambda>row. length (td_cells row) = length (header_labels t))
               (find_all [str ''tr''] t)))"
proof (intro impI conjI allI ballI)
  assume s: "select_one soup selector = Inr (Some t)"
  then show "extract_table select_one soup selector = Inr (extract_table_of (Some t))"
    by (simp add: extract_table_def)
next
  fix r assume "r \<in> set (extract_table_of (Some t))"
  then show "dom r = set (header_labels t)" by (rule extract_table_of_dom)
next
  assume n: "find_first (str ''thead'') t = None"
  then show "header_labels t =
          (case find_all [str ''tr''] t of
             [] \<Rightarrow> []
           | row0 # rest \<Rightarrow> map get_text_strip (cells row0))"
    by (simp add: header_labels_def cells_def split: list.splits)
  show "extract_table_of (Some t) =
          map (row_record (header_labels t))
            (filter (\<lambda>row. length (td_cells row) = length (header_labels t))
               (tl (find_all [str ''tr''] t)))"
    using n by (rule extract_table_of_no_thead)
next
  fix h
  assume a: "find_first (str ''thead'') t = Some h \<and>
          \<not> list_ex (\<lambda>row. length (td_cells row) = length (header_labels t))
              (find_all [str ''tr''] h)"
  then show "header_labels t = map get_text_strip (cells h)"
    by (simp add: header_labels_def cells_def)
  from a have "find_first (str ''thead'') t = Some h" by simp
  then show "extract_table_of (Some t) =
          map (row_record (header_labels t))
            (filter (\<lambda>row. length (td_cells row) = length (header_labels t))
               (find_all [str ''tr''] t))"
    by (rule extract_table_of_thead)
qed

theorem extract_table_rows_witness:
  "ex_select_root ex_table (str ''table'') = Inr (Some ex_table) \<and>
   find_first (str ''thead'') ex_table = None \<and>
   header_labels ex_table = [str ''A'', str ''B''] \<and>
   extract_table ex_select_root ex_table (str ''table'') =
     Inr [[str ''A'' \<mapsto> str ''1'', str ''B'' \<mapsto> str ''2'']] \<and>
   ex_select_root ex_table_thead (str ''table'') = Inr (Some ex_table_thead) \<and>
   find_first (str ''thead'') ex_table_thead =
     Some (Tag (str ''thead'') []
             [Tag (str ''tr'') []
                [Tag (str ''th'') [] [Text (str ''A'')],
                 Tag (str ''th'') [] [Text (str ''B'')]]]) \<and>
   header_labels ex_table_thead = [str ''A'', str ''B''] \<and>
   extract_table ex_select_root ex_table_thead (str ''table'') =
     Inr [[str ''A'' \<mapsto> str ''1'', str ''B'' \<mapsto> str ''2'']]"
proof -
  let ?h = "Tag (str ''thead'') []
             [Tag (str ''tr'') []
                [Tag (str ''th'') [] [Text (str ''A'')],
                 Tag (str ''th'') [] [Text (str ''B'')]]]"
  let ?ok = "\<lambda>t row. length (td_cells row) = length (header_labels t)"
  have s: "ex_select_root ex_table (str ''table'') = Inr (Some ex_table)"
    by (simp add: ex_select_root_def)
  have f: "find_first (str ''thead'') ex_table = None"
    by (simp add: find_first_def find_all_def ex_table_def str_def)
  have h: "header_labels ex_table = [str ''A'', str ''B'']"
    by (simp add: header_labels_def find_first_def find_all_def ex_table_def str_def
        get_text_strip_def strip_def is_space_def)
  have m: "map (row_record (header_labels ex_table))
          (filter (?ok ex_table) (tl (find_all [str ''tr''] ex_table))) =
        [[str ''A'' \<mapsto> str ''1'', str ''B'' \<mapsto> str ''2'']]"
    unfolding h
    by (simp add: find_all_def ex_table_def str_def td_cells_def row_record_def
        get_text_strip_def strip_def is_space_def)
  note T = extract_table_rows[of ex_select_root ex_table "str ''table''" ex_table]
  from T s have a: "extract_table ex_select_root ex_table (str ''table'') =
      Inr (extract_table_of (Some ex_table))"
    by blast
  from T s f have "extract_table_of (Some ex_table) =
      map (row_record (header_labels ex_table))
        (filter (?ok ex_table) (tl (find_all [str ''tr''] ex_table)))"
    by blast
  with a m have e: "extract_table ex_select_root ex_table (str ''table'') =
     Inr [[str ''A'' \<mapsto> str ''1'', str ''B'' \<mapsto> str ''2'']]"
    by (simp only:)
  have s2: "ex_select_root ex_table_thead (str ''table'') = Inr (Some ex_table_thead)"
    by (simp add: ex_select_root_def)
  have f2: "find_first (str ''thead'') ex_table_thead = Some ?h"
    by (simp add: find_first_def find_all_def ex_table_thead_def str_def)
  have h2: "header_labels ex_table_thead = [str ''A'', str ''B'']"
    by (simp add: header_labels_def f2) (simp add: find_all_def str_def
        get_text_strip_def strip_def is_space_def)
  have n2: "\<not> list_ex (?ok ex_table_thead) (find_all [str ''tr''] ?h)"
    unfolding h2 by (simp add: find_all_def td_cells_def str_def)
  have m2: "map (row_record (header_labels ex_table_thead))
          (filter (?ok ex_table_thead) (find_all [str ''tr''] ex_table_thead)) =
        [[str ''A'' \<mapsto> str ''1'', str ''B'' \<mapsto> str ''2'']]"
    unfolding h2
    by (simp add: find_all_def ex_table_thead_def str_def td_cells_def row_record_def
        get_text_strip_def strip_def is_space_def)
  note T2 = extract_table_rows[of ex_select_root ex_table_thead "str ''table''"
      ex_table_thead]
  from T2 s2 have a2: "extract_table ex_select_root ex_table_thead (str ''table'') =
      Inr (extract_table_of (Some ex_table_thead))"
    by blast
  from T2 s2 f2 n2 have "extract_table_of (Some ex_table_thead) =
      map (row_record (header_labels ex_table_thead))
        (filter (?ok ex_table_thead) (find_all [str ''tr''] ex_table_thead))"
    by blast
  with a2 m2 have e2: "extract_table ex_select_root ex_table_thead (str ''table'') =
     Inr [[str ''A'' \<mapsto> str ''1'', str ''B'' \<mapsto> str ''2'']]"
    by (simp only:)
  show ?thesis using s f h e s2 f2 h2 e2 by blast
qed

subsection \<open>calculate_median\<close>



















subsection \<open>extract_items and extract_by_selector_attr\<close>

lemma extract_loop_all2:
  "extract_loop urljoin b attr els acc = Inr out \<Longrightarrow>
     \<exists>items. out = acc @ items \<and>
       list_all2 (\<lambda>el it. extract_one urljoin b attr el = Inr it) els items"
proof (induction els arbitrary: acc)
  case Nil
  then show ?case by simp
next
  case (Cons el els)
  from Cons.prems obtain it where it: "extract_one urljoin b attr el = Inr it"
    and r: "extract_loop urljoin b attr els (acc @ [it]) = Inr out"
    by (auto split: sum.splits)
  from Cons.IH[OF r] obtain items where "out = (acc @ [it]) @ items"
    and "list_all2 (\<lambda>el it. extract_one urljoin b attr el = Inr it) els items" by blast
  then show ?case using it by (intro exI[of _ "it # items"]) simp
qed

lemma extract_loop_error:
  "extract_loop urljoin b attr els acc = Inl e \<Longrightarrow>
     \<exists>el \<in> set els. extract_one urljoin b attr el = Inl e"
proof (induction els arbitrary: acc)
  case Nil
  then show ?case by simp
next
  case (Cons el els)
  then show ?case by (auto split: sum.splits)
qed

lemma extract_one_missing:
  "a \<noteq> [] \<Longrightarrow> el_get el a = None \<Longrightarrow>
     extract_one urljoin b (Some a) el =
       Inr \<lparr>source_url = b, item_text = None, item_attr = None\<rparr>"
  by (simp add: extract_one_def attr_item_def)

lemma extract_one_error:
  "extract_one urljoin b attr el = Inl e \<Longrightarrow>
     \<exists>a v. attr = Some a \<and> el_get el a = Some (AStr v) \<and> urljoin b v = Inl e"
  by (auto simp: extract_one_def attr_item_def
      split: option.splits if_splits attr_value.splits sum.splits)

lemma selector_attr_loop_filter:
  "selector_attr_loop a els acc =
     acc @ List.map_filter (\<lambda>el. if value_truthy (el_get el a) then el_get el a else None) els"
  by (induction els arbitrary: acc) (auto simp: List.map_filter_simps split: option.splits)

lemma extract_items_all2:
  assumes "select html selector = Inr els"
    and "extract_items select urljoin html base selector attr = Inr items"
  shows "list_all2 (\<lambda>el it. extract_one urljoin base attr el = Inr it) els items"
proof -
  from assms have "extract_loop urljoin base attr els [] = Inr items"
    by (simp add: extract_items_def)
  from extract_loop_all2[OF this] show ?thesis by simp
qed

lemma extract_items_missing_part:
  assumes a: "a \<noteq> []" and s: "select html selector = Inr els"
    and r: "extract_items select urljoin html base selector (Some a) = Inr items"
  shows "length items = length els \<and>
        (\<forall>i < length els. el_get (els ! i) a = None \<longrightarrow>
           items ! i = \<lparr>source_url = base, item_text = None, item_attr = None\<rparr>)"
proof (intro conjI allI impI)
  have l: "list_all2 (\<lambda>el it. extract_one urljoin base (Some a) el = Inr it) els items"
    using extract_items_all2[of select html selector els urljoin base "Some a" items] s r by simp
  then show "length items = length els" by (simp add: list_all2_lengthD)
  fix i assume i: "i < length els" and n: "el_get (els ! i) a = None"
  have "extract_one urljoin base (Some a) (els ! i) = Inr (items ! i)"
    using list_all2_nthD[OF l i] by simp
  with extract_one_missing[OF a n, of urljoin base]
  show "items ! i = \<lparr>source_url = base, item_text = None, item_attr = None\<rparr>" by simp
qed

lemma extract_items_error_part:
  assumes s: "select html selector = Inr els"
    and r: "extract_items select urljoin html base selector (Some a) = Inl e"
  shows "\<exists>el \<in> set els. \<exists>v. el_get el a = Some (AStr v) \<and> urljoin base v = Inl e"
proof -
  from r s have "extract_loop urljoin base (Some a) els [] = Inl e"
    by (simp add: extract_items_def)
  from extract_loop_error[OF this] obtain el where el: "el \<in> set els"
    and "extract_one urljoin base (Some a) el = Inl e" by blast
  from extract_one_error[OF this(2)] el show ?thesis by auto
qed

text \<open>
  C1, as the code has it: in attribute mode (a non-empty attribute name) \<open>extract_items\<close>
  emits exactly one item per matched node, in order, and for a matched node that lacks the
  attribute the item has neither attribute nor text; an error can only come from
  resolving the URL of a node that has the attribute, never from a missing attribute.
  Skipping the nodes without (or with an empty) attribute is what
  \<open>HTMLParser.extract_by_selector_attr\<close> does.
\<close>

theorem extract_items_missing_attribute:
  "a \<noteq> [] \<and> select html selector = Inr els \<longrightarrow>
     (\<forall>items. extract_items select urljoin html base selector (Some a) = Inr items \<longrightarrow>
        length items = length els \<and>
        (\<forall>i < length els. el_get (els ! i) a = None \<longrightarrow>
           items ! i = \<lparr>source_url = base, item_text = None, item_attr = None\<rparr>)) \<and>
     (\<forall>e. extract_items select urljoin html base selector (Some a) = Inl e \<longrightarrow>
        (\<exists>el \<in> set els. \<exists>v. el_get el a = Some (AStr v) \<and> urljoin base v = Inl e)) \<and>
     extract_by_selector_attr select html selector a =
       Inr (List.map_filter
              (\<lambda>el. if value_truthy (el_get el a) then el_get el a else None) els)"
proof (intro impI, elim conjE)
  assume a: "a \<noteq> []" and s: "select html selector = Inr els"
  have 1: "\<forall>items. extract_items select urljoin html base selector (Some a) = Inr items \<longrightarrow>
        length items = length els \<and>
        (\<forall>i < length els. el_get (els ! i) a = None \<longrightarrow>
           items ! i = \<lparr>source_url = base, item_text = None, item_attr = None\<rparr>)"
    using extract_items_missing_part[of a select html selector els urljoin base] a s by blast
  have 2: "\<forall>e. extract_items select urljoin html base selector (Some a) = Inl e \<longrightarrow>
        (\<exists>el \<in> set els. \<exists>v. el_get el a = Some (AStr v) \<and> urljoin base v = Inl e)"
    using extract_items_error_part[of select html selector els urljoin base a] s by blast
  have 3: "extract_by_selector_attr select html selector a =
       Inr (List.map_filter
              (\<lambda>el. if value_truthy (el_get el a) then el_get el a else None) els)"
    using s by (simp add: extract_by_selector_attr_def selector_attr_loop_filter)
  from 1 2 3 show "(\<forall>items. extract_items select urljoin html base selector (Some a) = Inr items \<longrightarrow>
        length items = length els \<and>
        (\<forall>i < length els. el_get (els ! i) a = None \<longrightarrow>
           items ! i = \<lparr>source_url = base, item_text = None, item_attr = None\<rparr>)) \<and>
     (\<forall>e. extract_items select urljoin html base selector (Some a) = Inl e \<longrightarrow>
        (\<exists>el \<in> set els. \<exists>v. el_get el a = Some (AStr v) \<and> urljoin base v = Inl e)) \<and>
     extract_by_selector_attr select html selector a =
       Inr (List.map_filter
              (\<lambda>el. if value_truthy (el_get el a) then el_get el a else None) els)"
    by blast
qed

text \<open>
  C1 as stated fails: for a matched link without \<open>href\<close>, \<open>extract_items\<close> with
  attribute \<open>href\<close> emits an item.
\<close>

theorem extract_items_emits_item_without_attribute:
  "el_get ex_anchor (str ''href'') = None \<and>
   extract_items ex_select_anchor ex_urljoin [] ex_base (str ''a.link'') (Some (str ''href'')) =
     Inr [\<lparr>source_url = ex_base, item_text = None, item_attr = None\<rparr>]"
  by (simp add: extract_items_def ex_select_anchor_def ex_anchor_def extract_one_def
      attr_item_def str_def)

theorem extract_items_missing_attribute_witness:
  "str ''href'' \<noteq> [] \<and> ex_select_two [] (str ''a.link'') = Inr [ex_anchor_p, ex_anchor] \<and>
   extract_items ex_select_two ex_urljoin [] ex_base (str ''a.link'') (Some (str ''href'')) =
     Inr [\<lparr>source_url = ex_base, item_text = None,
            item_attr = Some (AStr (str ''https://example.com/p''))\<rparr>,
          \<lparr>source_url = ex_base, item_text = None, item_attr = None\<rparr>] \<and>
   extract_by_selector_attr ex_select_two [] (str ''a.link'') (str ''href'') =
     Inr [AStr (str ''/p'')]"
proof -
  have a: "str ''href'' \<noteq> []" by (simp add: str_def)
  have s: "ex_select_two [] (str ''a.link'') = Inr [ex_anchor_p, ex_anchor]"
    by (simp add: ex_select_two_def)
  have e: "extract_items ex_select_two ex_urljoin [] ex_base (str ''a.link'') (Some (str ''href'')) =
     Inr [\<lparr>source_url = ex_base, item_text = None,
            item_attr = Some (AStr (str ''https://example.com/p''))\<rparr>,
          \<lparr>source_url = ex_base, item_text = None, item_attr = None\<rparr>]"
    by (simp add: extract_items_def ex_select_two_def ex_anchor_def ex_anchor_p_def
        extract_one_def attr_item_def ex_urljoin_def ex_base_def str_def)
  have m: "List.map_filter
              (\<lambda>el. if value_truthy (el_get el (str ''href'')) then el_get el (str ''href'') else None)
              [ex_anchor_p, ex_anchor] = [AStr (str ''/p'')]"
    by (simp add: List.map_filter_simps ex_anchor_def ex_anchor_p_def str_def)
  show ?thesis
    using extract_items_missing_attribute[of "str ''href''" ex_select_two "[]" "str ''a.link''"
        "[ex_anchor_p, ex_anchor]" ex_urljoin ex_base] a s e m
    by simp
qed

subsection \<open>The fields of an extracted item\<close>

lemma extract_one_populated:
  assumes "extract_one urljoin b attr el = Inr it"
  shows "\<not> (populated (item_text it) \<and> populated (item_attr it)) \<and>
         (attr_given attr \<longrightarrow> \<not> populated (item_text it) \<and>
            (populated (item_attr it) \<longleftrightarrow> (\<exists>a. attr = Some a \<and> el_get el a \<noteq> None))) \<and>
         (\<not> attr_given attr \<longrightarrow> populated (item_text it) \<and> \<not> populated (item_attr it))"
  using assms
  by (auto simp: extract_one_def attr_item_def text_item_def attr_given_def populated_def
      split: option.splits if_splits attr_value.splits sum.splits)

text \<open>
  C2, as the code has it: an item never carries both text and attribute. Without a
  requested attribute (\<open>None\<close> or the empty name) the text is populated and the attribute
  absent; with one, the text is absent and the attribute is populated exactly when the
  matched node has that attribute.
\<close>

theorem extract_items_populated:
  "select html selector = Inr els \<and>
   extract_items select urljoin html base selector attr = Inr items \<longrightarrow>
     length items = length els \<and>
     (\<forall>i < length items.
        \<not> (populated (item_text (items ! i)) \<and> populated (item_attr (items ! i))) \<and>
        (attr_given attr \<longrightarrow> \<not> populated (item_text (items ! i)) \<and>
           (populated (item_attr (items ! i)) \<longleftrightarrow>
              (\<exists>a. attr = Some a \<and> el_get (els ! i) a \<noteq> None))) \<and>
        (\<not> attr_given attr \<longrightarrow>
           populated (item_text (items ! i)) \<and> \<not> populated (item_attr (items ! i))))"
proof (intro impI, elim conjE)
  assume s: "select html selector = Inr els"
    and r: "extract_items select urljoin html base selector attr = Inr items"
  have l: "list_all2 (\<lambda>el it. extract_one urljoin base attr el = Inr it) els items"
    using extract_items_all2[of select html selector els urljoin base attr items] s r by simp
  then have len: "length items = length els" by (simp add: list_all2_lengthD)
  have "\<forall>i < length items.
        \<not> (populated (item_text (items ! i)) \<and> populated (item_attr (items ! i))) \<and>
        (attr_given attr \<longrightarrow> \<not> populated (item_text (items ! i)) \<and>
           (populated (item_attr (items ! i)) \<longleftrightarrow>
              (\<exists>a. attr = Some a \<and> el_get (els ! i) a \<noteq> None))) \<and>
        (\<not> attr_given attr \<longrightarrow>
           populated (item_text (items ! i)) \<and> \<not> populated (item_attr (items ! i)))"
  proof (intro allI impI)
    fix i assume "i < length items"
    then have i: "i < length els" using len by simp
    have "extract_one urljoin base attr (els ! i) = Inr (items ! i)"
      using list_all2_nthD[OF l i] by simp
    then show "\<not> (populated (item_text (items ! i)) \<and> populated (item_attr (items ! i))) \<and>
        (attr_given attr \<longrightarrow> \<not> populated (item_text (items ! i)) \<and>
           (populated (item_attr (items ! i)) \<longleftrightarrow>
              (\<exists>a. attr = Some a \<and> el_get (els ! i) a \<noteq> None))) \<and>
        (\<not> attr_given attr \<longrightarrow>
           populated (item_text (items ! i)) \<and> \<not> populated (item_attr (items ! i)))"
      by (rule extract_one_populated)
  qed
  with len show "length items = length els \<and>
     (\<forall>i < length items.
        \<not> (populated (item_text (items ! i)) \<and> populated (item_attr (items ! i))) \<and>
        (attr_given attr \<longrightarrow> \<not> populated (item_text (items ! i)) \<and>
           (populated (item_attr (items ! i)) \<longleftrightarrow>
              (\<exists>a. attr = Some a \<and> el_get (els ! i) a \<noteq> None))) \<and>
        (\<not> attr_given attr \<longrightarrow>
           populated (item_text (items ! i)) \<and> \<not> populated (item_attr (items ! i))))"
    by blast
qed

text \<open>
  C2 as stated fails: for a matched image without \<open>src\<close>, the item produced in
  attribute mode has neither field populated.
\<close>

theorem extract_items_item_with_neither_field:
  "extract_items ex_select_img ex_urljoin [] ex_base (str ''img'') (Some (str ''src'')) =
     Inr [\<lparr>source_url = ex_base, item_text = None, item_attr = None\<rparr>] \<and>
   \<not> populated (item_text \<lparr>source_url = ex_base, item_text = None, item_attr = None\<rparr>) \<and>
   \<not> populated (item_attr \<lparr>source_url = ex_base, item_text = None, item_attr = None\<rparr>)"
  by (simp add: extract_items_def ex_select_img_def ex_img_def extract_one_def
      attr_item_def populated_def str_def)

theorem extract_items_populated_witness:
  "ex_select_two [] (str ''a.link'') = Inr [ex_anchor_p, ex_anchor] \<and>
   extract_items ex_select_two ex_urljoin [] ex_base (str ''a.link'') None =
     Inr [\<lparr>source_url = ex_base, item_text = Some (str ''one''), item_attr = None\<rparr>,
          \<lparr>source_url = ex_base, item_text = Some (str ''more''), item_attr = None\<rparr>] \<and>
   populated (item_text
     ([\<lparr>source_url = ex_base, item_text = Some (str ''one''), item_attr = None\<rparr>,
       \<lparr>source_url = ex_base, item_text = Some (str ''more''), item_attr = None\<rparr>] ! 1)) \<and>
   \<not> populated (item_attr
     ([\<lparr>source_url = ex_base, item_text = Some (str ''one''), item_attr = None\<rparr>,
       \<lparr>source_url = ex_base, item_text = Some (str ''more''), item_attr = None\<rparr>] ! 1))"
proof -
  have s: "ex_select_two [] (str ''a.link'') = Inr [ex_anchor_p, ex_anchor]"
    by (simp add: ex_select_two_def)
  have e: "extract_items ex_select_two ex_urljoin [] ex_base (str ''a.link'') None =
     Inr [\<lparr>source_url = ex_base, item_text = Some (str ''one''), item_attr = None\<rparr>,
          \<lparr>source_url = ex_base, item_text = Some (str ''more''), item_attr = None\<rparr>]"
    by (simp add: extract_items_def ex_select_two_def ex_anchor_def ex_anchor_p_def
        extract_one_def text_item_def get_text_strip_def strip_def is_space_def str_def)
  have g: "\<not> attr_given None" by (simp add: attr_given_def)
  show ?thesis
    using extract_items_populated[of ex_select_two "[]" "str ''a.link''"
        "[ex_anchor_p, ex_anchor]" ex_urljoin ex_base None
        "[\<lparr>source_url = ex_base, item_text = Some (str ''one''), item_attr = None\<rparr>,
          \<lparr>source_url = ex_base, item_text = Some (str ''more''), item_attr = None\<rparr>]"] s e g
    by (simp add: populated_def)
qed

subsection \<open>Fetcher\<close>

lemma get_disallowed:
  assumes "robots f = Some rp" and "resolve lib f url = Inr u"
    and "lib_can_fetch lib rp user_agent u = Inr False"
  shows "get lib f url = (Inl (PermissionError u), [])"
  using assms by (simp add: get_def allowed_def)

lemma new_Fetcher_robots_failed:
  assumes "b \<noteq> []" and "lib_urlparse lib b = Inr (scheme, netloc)"
    and "lib_read_robots lib (scheme @ str ''://'' @ netloc @ str ''/robots.txt'') = Inl e"
  shows "new_Fetcher lib (Some b) t = Inr \<lparr>base_url = Some b, robots = None, timeout = t\<rparr>"
  using assms by (simp add: new_Fetcher_def init_robots_def)

lemma rp_read_raises:
  "rp_read urlopen ru = Inl e \<longleftrightarrow> urlopen ru = OpenRaises e \<or> urlopen ru = AnswersBody (Inl e)"
  by (auto simp: rp_read_def split: robots_answer.splits sum.splits if_splits)

lemma new_Fetcher_http_error:
  assumes "b \<noteq> []" and "lib_urlparse lib b = Inr (scheme, netloc)"
    and "lib_read_robots lib = rp_read urlopen" and "lib_can_fetch lib = rp_can_fetch rules_allow"
    and "urlopen (scheme @ str ''://'' @ netloc @ str ''/robots.txt'') = AnswersHTTPError code"
  shows "\<exists>f'. new_Fetcher lib (Some b) t = Inr f' \<and>
           (\<forall>url'. allowed lib f' url' =
              Inr (400 \<le> code \<and> code < 500 \<and> code \<noteq> 401 \<and> code \<noteq> 403))"
  using assms
  by (auto simp: new_Fetcher_def init_robots_def rp_read_def allowed_def rp_can_fetch_def
      fresh_parser_def)

text \<open>
  C5 as stated fails: when the request for the robots file is answered with status 503,
  the policy could not be loaded, but the parser raises nothing; the Fetcher keeps the
  parser, which refuses every URL, and \<open>get\<close> fails with \<open>PermissionError\<close>.
\<close>

theorem fetcher_denies_after_failed_robots_load:
  "new_Fetcher ex_lib_503 (Some ex_base) 15 =
     Inr \<lparr>base_url = Some ex_base, robots = Some fresh_parser, timeout = 15\<rparr> \<and>
   allowed ex_lib_503 \<lparr>base_url = Some ex_base, robots = Some fresh_parser, timeout = 15\<rparr>
     (str ''https://example.com/public'') = Inr False \<and>
   get ex_lib_503 \<lparr>base_url = Some ex_base, robots = Some fresh_parser, timeout = 15\<rparr>
     (str ''https://example.com/public'') =
     (Inl (PermissionError (str ''https://example.com/public'')), [])"
  by (simp add: new_Fetcher_def init_robots_def ex_lib_503_def ex_base_def rp_read_def
      allowed_def rp_can_fetch_def fresh_parser_def get_def resolve_def str_def)

text \<open>
  C5, as the code has it: when the loaded robots policy disallows the URL that \<open>get\<close> is
  about to request (the argument resolved against the base URL), \<open>get\<close> fails with
  \<open>PermissionError\<close> and hands no request to the HTTP session; and when reading the robots
  file raised an exception, the Fetcher is built without a policy and \<open>allowed\<close> answers
  yes for every URL. With the standard library's parser, reading raises exactly when
  opening the robots URL raises or its body cannot be decoded; an HTTP error status
  raises nothing, and then every URL is allowed for a status from 400 to 499 other than
  401 and 403, and every URL is refused for any other status.
\<close>

theorem fetcher_respects_robots:
  "(robots f = Some rp \<and> resolve lib f url = Inr u \<and>
    lib_can_fetch lib rp user_agent u = Inr False \<longrightarrow>
      get lib f url = (Inl (PermissionError u), [])) \<and>
   (b \<noteq> [] \<and> lib_urlparse lib b = Inr (scheme, netloc) \<and>
    lib_read_robots lib (scheme @ str ''://'' @ netloc @ str ''/robots.txt'') = Inl e \<longrightarrow>
      (\<exists>f'. new_Fetcher lib (Some b) t = Inr f' \<and> robots f' = None \<and>
            (\<forall>url'. allowed lib f' url' = Inr True))) \<and>
   (lib_read_robots slib = rp_read urlopen \<longrightarrow>
      (lib_read_robots slib ru = Inl e' \<longleftrightarrow>
         urlopen ru = OpenRaises e' \<or> urlopen ru = AnswersBody (Inl e'))) \<and>
   (sb \<noteq> [] \<and> lib_urlparse slib sb = Inr (sscheme, snetloc) \<and>
    lib_read_robots slib = rp_read urlopen \<and> lib_can_fetch slib = rp_can_fetch rules_allow \<and>
    urlopen (sscheme @ str ''://'' @ snetloc @ str ''/robots.txt'') = AnswersHTTPError code \<longrightarrow>
      (\<exists>f'. new_Fetcher slib (Some sb) st = Inr f' \<and>
            (\<forall>url'. allowed slib f' url' =
               Inr (400 \<le> code \<and> code < 500 \<and> code \<noteq> 401 \<and> code \<noteq> 403))))"
proof (intro conjI impI)
  assume "robots f = Some rp \<and> resolve lib f url = Inr u \<and>
    lib_can_fetch lib rp user_agent u = Inr False"
  then show "get lib f url = (Inl (PermissionError u), [])"
    using get_disallowed[of f rp lib url u] by simp
next
  assume "b \<noteq> [] \<and> lib_urlparse lib b = Inr (scheme, netloc) \<and>
    lib_read_robots lib (scheme @ str ''://'' @ netloc @ str ''/robots.txt'') = Inl e"
  then have "new_Fetcher lib (Some b) t = Inr \<lparr>base_url = Some b, robots = None, timeout = t\<rparr>"
    using new_Fetcher_robots_failed[of b lib scheme netloc e t] by simp
  then show "\<exists>f'. new_Fetcher lib (Some b) t = Inr f' \<and> robots f' = None \<and>
            (\<forall>url'. allowed lib f' url' = Inr True)"
    by (simp add: allowed_def)
next
  assume "lib_read_robots slib = rp_read urlopen"
  then show "lib_read_robots slib ru = Inl e' \<longleftrightarrow>
         urlopen ru = OpenRaises e' \<or> urlopen ru = AnswersBody (Inl e')"
    by (simp add: rp_read_raises)
next
  assume "sb \<noteq> [] \<and> lib_urlparse slib sb = Inr (sscheme, snetloc) \<and>
    lib_read_robots slib = rp_read urlopen \<and> lib_can_fetch slib = rp_can_fetch rules_allow \<and>
    urlopen (sscheme @ str ''://'' @ snetloc @ str ''/robots.txt'') = AnswersHTTPError code"
  then show "\<exists>f'. new_Fetcher slib (Some sb) st = Inr f' \<and>
            (\<forall>url'. allowed slib f' url' =
               Inr (400 \<le> code \<and> code < 500 \<and> code \<noteq> 401 \<and> code \<noteq> 403))"
    using new_Fetcher_http_error[of sb slib sscheme snetloc urlopen rules_allow code st] by simp
qed

theorem fetcher_respects_robots_witness:
  "new_Fetcher ex_lib (Some ex_base) 15 =
     Inr \<lparr>base_url = Some ex_base, robots = Some [str ''https://example.com/private''],
          timeout = 15\<rparr> \<and>
   get ex_lib
     \<lparr>base_url = Some ex_base, robots = Some [str ''https://example.com/private''],
      timeout = 15\<rparr>
     (str ''https://example.com/private'') =
     (Inl (PermissionError (str ''https://example.com/private'')), []) \<and>
   get ex_lib
     \<lparr>base_url = Some ex_base, robots = Some [str ''https://example.com/private''],
      timeout = 15\<rparr>
     (str ''https://example.com/public'') =
     (Inr \<lparr>status_code = 200, resp_text = []\<rparr>, [str ''https://example.com/public'']) \<and>
   (\<exists>f'. new_Fetcher ex_lib (Some (str ''https://down.example'')) 15 = Inr f' \<and>
         robots f' = None \<and> (\<forall>url'. allowed ex_lib f' url' = Inr True)) \<and>
   (\<exists>f'. new_Fetcher ex_lib_503 (Some ex_base) 15 = Inr f' \<and>
         (\<forall>url'. allowed ex_lib_503 f' url' = Inr False))"
proof -
  let ?f = "\<lparr>base_url = Some ex_base, robots = Some [str ''https://example.com/private''],
      timeout = 15\<rparr>"
  let ?p = "str ''https://example.com/private''"
  let ?open = "\<lambda>url :: pystr. AnswersHTTPError 503 :: unit robots_answer"
  let ?rules = "\<lambda>(rules :: unit) (agent :: pystr) (url :: pystr). Inr True :: py_error + bool"
  have n: "new_Fetcher ex_lib (Some ex_base) 15 = Inr ?f"
    by (simp add: new_Fetcher_def init_robots_def ex_lib_def ex_base_def str_def)
  have r: "robots ?f = Some [?p]" by simp
  have u: "resolve ex_lib ?f ?p = Inr ?p"
    by (simp add: resolve_def ex_lib_def ex_base_def str_def)
  have c: "lib_can_fetch ex_lib [?p] user_agent ?p = Inr False"
    by (simp add: ex_lib_def)
  have g: "get ex_lib ?f (str ''https://example.com/public'') =
     (Inr \<lparr>status_code = 200, resp_text = []\<rparr>, [str ''https://example.com/public''])"
    by (simp add: get_def resolve_def allowed_def raise_for_status_def ex_lib_def ex_base_def
        str_def)
  have d: "str ''https://down.example'' \<noteq> []" by (simp add: str_def)
  have dp: "lib_urlparse ex_lib (str ''https://down.example'') =
      Inr (str ''https'', str ''down.example'')"
    by (simp add: ex_lib_def str_def)
  have dr: "lib_read_robots ex_lib
      (str ''https'' @ str ''://'' @ str ''down.example'' @ str ''/robots.txt'') =
      Inl (OtherException (str ''URLError''))"
    by (simp add: ex_lib_def str_def)
  have sb: "ex_base \<noteq> []" by (simp add: ex_base_def str_def)
  have sp: "lib_urlparse ex_lib_503 ex_base = Inr (str ''https'', str ''example.com'')"
    by (simp add: ex_lib_503_def ex_base_def str_def)
  have sr: "lib_read_robots ex_lib_503 = rp_read ?open" by (simp add: ex_lib_503_def)
  have sc: "lib_can_fetch ex_lib_503 = rp_can_fetch ?rules" by (simp add: ex_lib_503_def)
  have so: "?open (str ''https'' @ str ''://'' @ str ''example.com'' @ str ''/robots.txt'') =
      AnswersHTTPError 503"
    by simp
  note T = fetcher_respects_robots[where f="?f" and rp="[?p]" and lib=ex_lib and url="?p"
        and u="?p" and b="str ''https://down.example''" and scheme="str ''https''"
        and netloc="str ''down.example''" and e="OtherException (str ''URLError'')" and t=15
        and slib=ex_lib_503 and urlopen="?open" and rules_allow="?rules" and code=503
        and sb=ex_base and sscheme="str ''https''" and snetloc="str ''example.com''" and st=15
        and ru="[]" and e'=ValueError]
  have 1: "get ex_lib ?f ?p = (Inl (PermissionError ?p), [])"
    using T r u c by blast
  have 2: "\<exists>f'. new_Fetcher ex_lib (Some (str ''https://down.example'')) 15 = Inr f' \<and>
         robots f' = None \<and> (\<forall>url'. allowed ex_lib f' url' = Inr True)"
    using T d dp dr by blast
  have 3: "\<exists>f'. new_Fetcher ex_lib_503 (Some ex_base) 15 = Inr f' \<and>
         (\<forall>url'. allowed ex_lib_503 f' url' = Inr False)"
    using T sb sp sr sc so by simp
  show ?thesis using n 1 g 2 3 by blast
qed

subsection \<open>filter_data\<close>

lemma filter_callable_has_key:
  "filter_callable f key data = Inr out \<Longrightarrow> r \<in> set out \<Longrightarrow> r key \<noteq> None"
proof (induction data arbitrary: out)
  case Nil
  then show ?case by simp
next
  case (Cons item rest)
  then show ?case
    by (auto split: option.splits sum.splits if_splits)
qed

lemma filter_data_callable_has_key:
  "filter_data data key (Callable f) = Inr out \<Longrightarrow> r \<in> set out \<Longrightarrow> r key \<noteq> None"
  using filter_callable_has_key by simp

lemma py_eq_PNone: "py_eq PNone v \<longleftrightarrow> v = PNone"
  by (cases v) (auto simp: py_eq_def)

lemma filter_data_literal_has_key:
  "v \<noteq> PNone \<Longrightarrow> filter_data data key (Literal v) = Inr out \<Longrightarrow> r \<in> set out \<Longrightarrow>
     r key \<noteq> None"
  by (auto simp: dict_get_def py_eq_PNone split: option.splits)

text \<open>
  C3 fails on the code for the literal \<open>None\<close>: \<open>item.get(key)\<close> is \<open>None\<close> for a record
  without the key, which equals the literal, so the record \<open>{"a": 1}\<close> is returned when
  filtering on key \<open>"b"\<close> with value \<open>None\<close>. (With a predicate, and with any other
  literal, records without the key never match: the three lemmas above.)
\<close>

theorem filter_data_none_matches_missing_key:
  "filter_data [[str ''a'' \<mapsto> PInt 1]] (str ''b'') (Literal PNone) =
     Inr [[str ''a'' \<mapsto> PInt 1]] \<and>
   ([str ''a'' \<mapsto> PInt 1]) (str ''b'') = None"
  by (simp add: dict_get_def py_eq_def str_def)

subsection \<open>get_statistics\<close>

lemma numeric_loop_values:
  "\<not> list_ex (overflows key) data \<Longrightarrow>
     numeric_loop str_float key data acc =
       Inr (acc @ List.map_filter (numeric_value str_float key) data)"
proof (induction data arbitrary: acc)
  case Nil
  then show ?case by simp
next
  case (Cons item rest)
  have rest: "\<not> list_ex (overflows key) rest" using Cons.prems by simp
  have ov: "\<not> overflows key item" using Cons.prems by simp
  show ?case
  proof (cases "item key")
    case None
    then show ?thesis
      using Cons.IH[OF rest] by (simp add: numeric_value_def)
  next
    case (Some v)
    show ?thesis
    proof (cases "py_float str_float v")
      case (Inr x)
      then show ?thesis
        using Some Cons.IH[OF rest] by (simp add: numeric_value_def)
    next
      case (Inl e)
      have "e = ValueError \<or> e = TypeError"
        using Inl Some ov
        by (cases v) (auto simp: overflows_def split: if_splits option.splits)
      then show ?thesis
        using Some Inl Cons.IH[OF rest]
        by (auto simp: numeric_value_def)
    qed
  qed
qed

lemma get_statistics_values:
  assumes "\<not> list_ex (overflows key) data"
  shows "get_numeric_values str_float data key =
           Inr (List.map_filter (numeric_value str_float key) data)"
    and "List.map_filter (numeric_value str_float key) data = [] \<Longrightarrow>
           get_statistics py_sum str_float data key = Inr Map.empty"
    and "List.map_filter (numeric_value str_float key) data = v # vs \<Longrightarrow>
         py_sum (v # vs) = Inr tot \<Longrightarrow>
         calculate_average py_sum (v # vs) = Inr average \<Longrightarrow>
         calculate_median (v # vs) = Inr median \<Longrightarrow>
         \<exists>mn mx. py_min (v # vs) = Inr mn \<and> py_max (v # vs) = Inr mx \<and>
           get_statistics py_sum str_float data key =
             Inr [str ''count'' \<mapsto> Some (Num (NInt (int (length (v # vs))))),
                  str ''sum'' \<mapsto> Some tot,
                  str ''average'' \<mapsto> average,
                  str ''median'' \<mapsto> median,
                  str ''min'' \<mapsto> Some (Num mn),
                  str ''max'' \<mapsto> Some (Num mx)]"
  using numeric_loop_values[OF assms, of str_float "[]"]
  by (simp_all add: get_statistics_def get_numeric_values_def)

text \<open>
  C6 fails on the code for an integer beyond the range of a float: \<open>float\<close> raises
  \<open>OverflowError\<close>, the handler catches \<open>ValueError\<close> and \<open>TypeError\<close> only, and the call
  fails instead of excluding the value. (Without such an integer the statistics are
  taken over exactly the values that coerce, and the result is the empty dict when none
  does: the lemma above.)
\<close>

theorem get_statistics_overflow_error:
  "get_statistics py_sum str_float [[str ''n'' \<mapsto> PInt (10 ^ 400)]] (str ''n'') =
     Inl OverflowError"
  by (simp add: get_statistics_def get_numeric_values_def int_too_large_def)

subsection \<open>remove_duplicates\<close>

lemma py_eq_trans: "py_eq a b \<Longrightarrow> py_eq b c \<Longrightarrow> py_eq a c"
  by (auto simp: py_eq_def split: option.splits)

lemma py_in_append: "py_in v (seen @ [w]) \<longleftrightarrow> py_in v seen \<or> py_eq v w"
  by (auto simp: py_in_def list_ex_iff)

lemma py_in_trans: "py_in w seen \<Longrightarrow> py_eq v w \<Longrightarrow> py_in v seen"
  by (auto simp: py_in_def list_ex_iff intro: py_eq_trans)

lemma upt_0_Suc: "[0..<Suc n] = 0 # map Suc [0..<n]"
  by (simp add: upt_conv_Cons map_Suc_upt del: upt_Suc)

lemma list_ex_upt_Suc: "list_ex Q [0..<Suc i] \<longleftrightarrow> Q 0 \<or> list_ex (\<lambda>j. Q (Suc j)) [0..<i]"
  unfolding upt_0_Suc
  by (auto simp add: list_ex_iff simp del: upt_Suc image_Suc_atLeastLessThan)

lemma first_unseen_0:
  "first_unseen key seen (x # xs) 0 = (case x key of None \<Rightarrow> False | Some v \<Rightarrow> \<not> py_in v seen)"
  by (simp add: first_unseen_def split: option.splits)

lemma first_unseen_Suc:
  "first_unseen key seen (x # xs) (Suc i) =
     (case (xs ! i) key of
        None \<Rightarrow> False
      | Some v \<Rightarrow>
          \<not> py_in v seen \<and> \<not> (case x key of None \<Rightarrow> False | Some w \<Rightarrow> py_eq v w) \<and>
          \<not> list_ex (\<lambda>j. case (xs ! j) key of None \<Rightarrow> False | Some w \<Rightarrow> py_eq v w) [0..<i])"
  unfolding first_unseen_def list_ex_upt_Suc by (simp split: option.splits)

lemma first_unseen_Suc_None:
  "x key = None \<Longrightarrow> first_unseen key seen (x # xs) (Suc i) = first_unseen key seen xs i"
  unfolding first_unseen_Suc by (simp add: first_unseen_def split: option.splits)

lemma first_unseen_Suc_new:
  "x key = Some w \<Longrightarrow>
     first_unseen key seen (x # xs) (Suc i) = first_unseen key (seen @ [w]) xs i"
  unfolding first_unseen_Suc by (auto simp: first_unseen_def py_in_append split: option.splits)

lemma first_unseen_Suc_old:
  "x key = Some w \<Longrightarrow> py_in w seen \<Longrightarrow>
     first_unseen key seen (x # xs) (Suc i) = first_unseen key seen xs i"
  unfolding first_unseen_Suc
  by (auto simp: first_unseen_def split: option.splits dest: py_in_trans)

lemma kept_indices_Cons:
  "map ((!) (x # xs)) (filter P [0..<Suc (length xs)]) =
     (if P 0 then [x] else []) @ map ((!) xs) (filter (\<lambda>i. P (Suc i)) [0..<length xs])"
  unfolding upt_0_Suc by (simp add: filter_map comp_def del: upt_Suc)

lemma dedup_loop_indices:
  "dedup_loop key data seen unique =
     unique @ map ((!) data) (filter (first_unseen key seen data) [0..<length data])"
proof (induction data arbitrary: seen unique)
  case Nil
  show ?case by simp
next
  case (Cons x xs)
  show ?case
  proof (cases "x key")
    case None
    have a: "dedup_loop key (x # xs) seen unique = dedup_loop key xs seen unique"
      using None by simp
    have b: "map ((!) (x # xs)) (filter (first_unseen key seen (x # xs)) [0..<Suc (length xs)]) =
        map ((!) xs) (filter (first_unseen key seen xs) [0..<length xs])"
      unfolding kept_indices_Cons
      by (simp add: first_unseen_0 None first_unseen_Suc_None)
    show ?thesis
      using a b Cons.IH[of seen unique] by (simp del: upt_Suc dedup_loop.simps)
  next
    case (Some w)
    show ?thesis
    proof (cases "py_in w seen")
      case True
      have a: "dedup_loop key (x # xs) seen unique = dedup_loop key xs seen unique"
        using Some True by simp
      have b: "map ((!) (x # xs)) (filter (first_unseen key seen (x # xs)) [0..<Suc (length xs)]) =
          map ((!) xs) (filter (first_unseen key seen xs) [0..<length xs])"
        unfolding kept_indices_Cons
        by (simp add: first_unseen_0 Some True
            first_unseen_Suc_old[where x=x and key=key and w=w and seen=seen, OF Some True])
      show ?thesis
        using a b Cons.IH[of seen unique] by (simp del: upt_Suc dedup_loop.simps)
    next
      case False
      have a: "dedup_loop key (x # xs) seen unique =
          dedup_loop key xs (seen @ [w]) (unique @ [x])"
        using Some False by simp
      have b: "map ((!) (x # xs)) (filter (first_unseen key seen (x # xs)) [0..<Suc (length xs)]) =
          x # map ((!) xs) (filter (first_unseen key (seen @ [w]) xs) [0..<length xs])"
        unfolding kept_indices_Cons
        by (simp add: first_unseen_0 Some False
            first_unseen_Suc_new[where x=x and key=key and w=w, OF Some])
      show ?thesis
        using a b Cons.IH[of "seen @ [w]" "unique @ [x]"]
        by (simp del: upt_Suc dedup_loop.simps)
    qed
  qed
qed

lemma first_unseen_empty: "first_unseen key [] data = first_with_value key data"
  by (rule ext) (simp add: first_unseen_def first_with_value_def py_in_def split: option.splits)

lemma dedup_loop_first:
  "dedup_loop key data [] [] =
     map ((!) data) (filter (first_with_value key data) [0..<length data])"
  using dedup_loop_indices[of key data "[]" "[]"] by (simp add: first_unseen_empty)

lemma kept_subseq: "subseq (map ((!) data) (filter P [0..<length data])) data"
proof -
  have "subseq (map ((!) data) (filter P [0..<length data])) (map ((!) data) [0..<length data])"
    by (intro subseq_map subseq_filter_left)
  then show ?thesis by (simp add: map_nth)
qed

lemma kept_pairwise:
  assumes out: "out = map ((!) data) (filter (first_with_value key data) [0..<length data])"
    and i: "i < length out" and j: "j < i"
  shows "\<not> py_eq (dict_get (out ! i) key) (dict_get (out ! j) key)"
proof -
  let ?idx = "filter (first_with_value key data) [0..<length data]"
  have len: "length out = length ?idx" using out by simp
  have srt: "sorted_wrt (<) ?idx" by (intro sorted_wrt_filter) simp
  have ji: "j < length ?idx" using i j len by simp
  have ii: "i < length ?idx" using i len by simp
  have lt: "?idx ! j < ?idx ! i" using sorted_wrt_nth_less[OF srt j ii] .
  have fi: "first_with_value key data (?idx ! i)" using nth_mem[OF ii] by simp
  have fj: "first_with_value key data (?idx ! j)" using nth_mem[OF ji] by simp
  have oi: "out ! i = data ! (?idx ! i)" using out ii by simp
  have oj: "out ! j = data ! (?idx ! j)" using out ji by simp
  from fj obtain w where w: "(data ! (?idx ! j)) key = Some w"
    by (auto simp: first_with_value_def split: option.splits)
  from fi obtain v where v: "(data ! (?idx ! i)) key = Some v"
    and nx: "\<not> list_ex (\<lambda>j. case (data ! j) key of None \<Rightarrow> False | Some w \<Rightarrow> py_eq v w)
                [0..<?idx ! i]"
    by (auto simp: first_with_value_def split: option.splits)
  from nx lt w have "\<not> py_eq v w" by (auto simp: list_ex_iff split: option.splits)
  then show ?thesis using oi oj v w by (simp add: dict_get_def)
qed

lemma dedup_loop_has_key:
  "r \<in> set (dedup_loop key data seen unique) \<Longrightarrow> r \<in> set unique \<or> r key \<noteq> None"
proof (induction data arbitrary: seen unique)
  case Nil
  then show ?case by simp
next
  case (Cons x xs)
  then show ?case by (fastforce split: option.splits if_splits)
qed

lemma dedup_loop_filter:
  "dedup_loop key (filter (\<lambda>r. r key \<noteq> None) data) seen unique =
     dedup_loop key data seen unique"
  by (induction data arbitrary: seen unique) (auto split: option.splits)

lemma not_same_items_blank: "\<not> same_items ex_blank2 ex_blank1"
proof
  assume "same_items ex_blank2 ex_blank1"
  then have "rel_option py_eq (ex_blank2 (str ''v'')) (ex_blank1 (str ''v''))"
    unfolding same_items_def by blast
  then show False by (simp add: ex_blank1_def ex_blank2_def py_eq_def str_def)
qed

text \<open>
  C4 as stated fails for the empty key: \<open>if key\<close> is false for \<open>""\<close>, the records are
  deduplicated as whole records, and two records that share the value of the key \<open>""\<close>
  are both returned; the list with the first of them alone is not a possible result.
\<close>

theorem remove_duplicates_empty_key_keeps_both:
  "remove_duplicates_may_return [ex_blank1, ex_blank2] (Some []) [ex_blank1, ex_blank2] \<and>
   py_eq (dict_get ex_blank1 []) (dict_get ex_blank2 []) \<and>
   \<not> remove_duplicates_may_return [ex_blank1, ex_blank2] (Some []) [ex_blank1]"
proof (intro conjI)
  show "remove_duplicates_may_return [ex_blank1, ex_blank2] (Some []) [ex_blank1, ex_blank2]"
    by (simp add: remove_duplicates_may_return_def not_same_items_blank)
  show "py_eq (dict_get ex_blank1 []) (dict_get ex_blank2 [])"
    by (simp add: dict_get_def py_eq_def ex_blank1_def ex_blank2_def str_def)
  show "\<not> remove_duplicates_may_return [ex_blank1, ex_blank2] (Some []) [ex_blank1]"
    by (simp add: remove_duplicates_may_return_def not_same_items_blank)
qed

text \<open>
  C4 for a non-empty key: the result is a subsequence of the input; it consists, in input
  order, of exactly the records that have the key and are the first in the input with
  their value of it; the values of the key in the result are pairwise different; and on
  the specification's example with key \<open>"id"\<close> the result is the first two records.
\<close>

theorem remove_duplicates_keeps_first:
  "(k \<noteq> [] \<and> remove_duplicates_may_return data (Some k) out \<longrightarrow>
      subseq out data \<and>
      out = map ((!) data) (filter (first_with_value k data) [0..<length data]) \<and>
      (\<forall>i < length out. \<forall>j < i.
         \<not> py_eq (dict_get (out ! i) k) (dict_get (out ! j) k))) \<and>
   (remove_duplicates_may_return [ex_rec1, ex_rec2, ex_rec3] (Some (str ''id'')) out' \<longleftrightarrow>
      out' = [ex_rec1, ex_rec2])"
proof (intro conjI impI)
  assume a: "k \<noteq> [] \<and> remove_duplicates_may_return data (Some k) out"
  then have o: "out = map ((!) data) (filter (first_with_value k data) [0..<length data])"
    by (simp add: remove_duplicates_may_return_def dedup_loop_first)
  show "out = map ((!) data) (filter (first_with_value k data) [0..<length data])"
    by (rule o)
  show "subseq out data" unfolding o by (rule kept_subseq)
  show "\<forall>i < length out. \<forall>j < i. \<not> py_eq (dict_get (out ! i) k) (dict_get (out ! j) k)"
    using kept_pairwise[OF o] by blast
next
  have "dedup_loop (str ''id'') [ex_rec1, ex_rec2, ex_rec3] [] [] = [ex_rec1, ex_rec2]"
    by (simp add: ex_rec1_def ex_rec2_def ex_rec3_def py_in_def py_eq_def str_def)
  moreover have "str ''id'' \<noteq> []" by (simp add: str_def)
  ultimately show "remove_duplicates_may_return [ex_rec1, ex_rec2, ex_rec3] (Some (str ''id'')) out'
      \<longleftrightarrow> out' = [ex_rec1, ex_rec2]"
    by (simp add: remove_duplicates_may_return_def)
qed

theorem remove_duplicates_keeps_first_witness:
  "str ''id'' \<noteq> [] \<and>
   remove_duplicates_may_return [ex_rec1, ex_rec2, ex_rec3] (Some (str ''id''))
     [ex_rec1, ex_rec2] \<and>
   subseq [ex_rec1, ex_rec2] [ex_rec1, ex_rec2, ex_rec3] \<and>
   [ex_rec1, ex_rec2] =
     map ((!) [ex_rec1, ex_rec2, ex_rec3])
       (filter (first_with_value (str ''id'') [ex_rec1, ex_rec2, ex_rec3])
          [0..<length [ex_rec1, ex_rec2, ex_rec3]])"
proof -
  have k: "str ''id'' \<noteq> []" by (simp add: str_def)
  have r: "remove_duplicates_may_return [ex_rec1, ex_rec2, ex_rec3] (Some (str ''id''))
     [ex_rec1, ex_rec2]"
    using remove_duplicates_keeps_first[of "str ''id''" "[]" "[]" "[ex_rec1, ex_rec2]"]
    by simp
  show ?thesis
    using remove_duplicates_keeps_first[of "str ''id''" "[ex_rec1, ex_rec2, ex_rec3]"
        "[ex_rec1, ex_rec2]" "[ex_rec1, ex_rec2]"] k r
    by blast
qed

text \<open>
  C10 as stated fails for the empty key: with key \<open>""\<close> the record \<open>{"v": "a"}\<close>, which
  has no such key, is returned, and the empty list is not a possible result.
\<close>

theorem remove_duplicates_empty_key_keeps_record_without_key:
  "remove_duplicates_may_return [ex_nokey] (Some []) [ex_nokey] \<and>
   ex_nokey [] = None \<and>
   \<not> remove_duplicates_may_return [ex_nokey] (Some []) []"
  by (simp add: remove_duplicates_may_return_def ex_nokey_def str_def)

text \<open>
  C10 for a non-empty key: no record of the result lacks the key, and the records that
  lack it have no influence, the result being that for the input without them.
\<close>

theorem remove_duplicates_drops_records_without_key:
  "k \<noteq> [] \<and> remove_duplicates_may_return data (Some k) out \<longrightarrow>
     (\<forall>r \<in> set out. r k \<noteq> None) \<and>
     remove_duplicates_may_return (filter (\<lambda>r. r k \<noteq> None) data) (Some k) out"
proof (intro impI conjI)
  assume a: "k \<noteq> [] \<and> remove_duplicates_may_return data (Some k) out"
  then have o: "out = dedup_loop k data [] []"
    by (simp add: remove_duplicates_may_return_def)
  show "\<forall>r \<in> set out. r k \<noteq> None"
    using dedup_loop_has_key[of _ k data "[]" "[]"] o by auto
  show "remove_duplicates_may_return (filter (\<lambda>r. r k \<noteq> None) data) (Some k) out"
    using a o by (simp add: remove_duplicates_may_return_def dedup_loop_filter del: not_None_eq)
qed

theorem remove_duplicates_drops_records_without_key_witness:
  "str ''id'' \<noteq> [] \<and>
   remove_duplicates_may_return [ex_nokey, ex_rec1] (Some (str ''id'')) [ex_rec1] \<and>
   ex_nokey (str ''id'') = None \<and>
   ex_rec1 (str ''id'') \<noteq> None \<and>
   remove_duplicates_may_return (filter (\<lambda>r. r (str ''id'') \<noteq> None) [ex_nokey, ex_rec1])
     (Some (str ''id'')) [ex_rec1]"
proof -
  have k: "str ''id'' \<noteq> []" by (simp add: str_def)
  have n: "ex_nokey (str ''id'') = None" by (simp add: ex_nokey_def str_def)
  have e: "ex_rec1 (str ''id'') \<noteq> None" by (simp add: ex_rec1_def str_def)
  have r: "remove_duplicates_may_return [ex_nokey, ex_rec1] (Some (str ''id'')) [ex_rec1]"
    using k n by (simp add: remove_duplicates_may_return_def ex_rec1_def py_in_def str_def)
  show ?thesis
    using remove_duplicates_drops_records_without_key[of "str ''id''" "[ex_nokey, ex_rec1]"
        "[ex_rec1]"] k n r e
    by blast
qed

end
